(* ===== verification/Prelude.thy ===== *)
theory Prelude
  imports Main
begin

text \<open>
  Shared vocabulary of the development. Python exceptions are values of \<open>pyerr\<close>; a
  statement that may raise and that changes the world is a function of type
  \<open>('w, 'a) exc\<close>, from the world before to the outcome (an exception \<open>Inl e\<close> or a
  value \<open>Inr a\<close>) and the world after. The world after an exception keeps every effect
  performed before the raise, as in Python. \<open>ebind\<close> sequences two statements and
  propagates an exception; \<open>try_except\<close> is a \<^verbatim>\<open>try: ... except Exception as e: ...\<close>
  block. The collection \<open>exc_simps\<close> holds the laws that evaluate these combinators,
  and \<open>model_defs\<close> the definitions a component wants unfolded in its proofs.
\<close>

named_theorems exc_simps "laws evaluating the exception-state combinators"
named_theorems model_defs "definitions of the program model unfolded by component proofs"

section \<open>Python exceptions\<close>

datatype pyerr =
    KeyError string          \<comment> \<open>a missing dictionary key\<close>
  | IndexError               \<comment> \<open>a list index out of range\<close>
  | ValueError string        \<comment> \<open>\<^verbatim>\<open>int()\<close> of a string that is no integer literal\<close>
  | AttributeError string    \<comment> \<open>an instance attribute read before it was set\<close>
  | EOFError                 \<comment> \<open>\<^verbatim>\<open>input()\<close> at the end of standard input\<close>
  | ServiceError string      \<comment> \<open>a network or service failure raised by the database client\<close>
  | DecodeError string       \<comment> \<open>a reply the record reader cannot decode\<close>

text \<open>\<^verbatim>\<open>str(e)\<close> of an exception, as Python prints it; \<open>squote\<close> is the quote character.\<close>

abbreviation squote :: char where
  "squote \<equiv> char_of (39::nat)"

text \<open>
  \<^verbatim>\<open>repr\<close> of a string, as \<^verbatim>\<open>str(KeyError(k))\<close> and the message of \<^verbatim>\<open>int()\<close> print it:
  single quotes unless the string holds a single quote and no double quote; a backslash and
  the chosen quote escaped; tab, line feed and carriage return as \<^verbatim>\<open>\t \n \r\<close>; the
  other characters Python does not print (codes below 32, 127 to 160 and 173, a character
  read as its Latin-1 code point) as \<^verbatim>\<open>\xhh\<close>.
\<close>

definition hex_digit :: "nat \<Rightarrow> char" where
  "hex_digit d = (if d < 10 then char_of (48 + d) else char_of (87 + d))"

definition py_unprintable :: "char \<Rightarrow> bool" where
  "py_unprintable c \<longleftrightarrow>
     of_char c < (32::nat) \<or> ((127::nat) \<le> of_char c \<and> of_char c \<le> (160::nat)) \<or> of_char c = (173::nat)"

definition repr_char :: "char \<Rightarrow> char \<Rightarrow> string" where
  "repr_char q c =
     (if c = q \<or> c = CHR 0x5C then [CHR 0x5C, c]
      else if c = CHR 0x09 then [CHR 0x5C, CHR ''t'']
      else if c = CHR 0x0A then [CHR 0x5C, CHR ''n'']
      else if c = CHR 0x0D then [CHR 0x5C, CHR ''r'']
      else if py_unprintable c
      then [CHR 0x5C, CHR ''x'', hex_digit (of_char c div 16), hex_digit (of_char c mod 16)]
      else [c])"

definition py_repr :: "string \<Rightarrow> string" where
  "py_repr s =
     (let q = (if squote \<in> set s \<and> CHR 0x22 \<notin> set s then CHR 0x22 else squote)
      in q # concat (map (repr_char q) s) @ [q])"

fun err_str :: "pyerr \<Rightarrow> string" where
  "err_str (KeyError k) = py_repr k"
| "err_str IndexError = ''list index out of range''"
| "err_str (ValueError s) = ''invalid literal for int() with base 10: '' @ py_repr s"
| "err_str (AttributeError a) = squote # ''NCBIRetriever'' @ squote # '' object has no attribute '' @ squote # a @ [squote]"
| "err_str EOFError = ''EOF when reading a line''"
| "err_str (ServiceError m) = m"
| "err_str (DecodeError m) = m"

section \<open>Statements that raise and change the world\<close>

type_synonym ('w, 'a) exc = "'w \<Rightarrow> (pyerr + 'a) \<times> 'w"

definition ret :: "'a \<Rightarrow> ('w, 'a) exc" where
  "ret a w = (Inr a, w)"

definition raise :: "pyerr \<Rightarrow> ('w, 'a) exc" where
  "raise e w = (Inl e, w)"

definition of_sum :: "pyerr + 'a \<Rightarrow> ('w, 'a) exc" where
  "of_sum r w = (r, w)"

definition ebind :: "('w, 'a) exc \<Rightarrow> ('a \<Rightarrow> ('w, 'b) exc) \<Rightarrow> ('w, 'b) exc" where
  "ebind m f w = (case m w of (Inl e, w') \<Rightarrow> (Inl e, w') | (Inr a, w') \<Rightarrow> f a w')"

definition try_except :: "('w, 'a) exc \<Rightarrow> (pyerr \<Rightarrow> ('w, 'a) exc) \<Rightarrow> ('w, 'a) exc" where
  "try_except m h w = (case m w of (Inl e, w') \<Rightarrow> h e w' | (Inr a, w') \<Rightarrow> (Inr a, w'))"

definition update :: "('w \<Rightarrow> 'w) \<Rightarrow> ('w, unit) exc" where
  "update f w = (Inr (), f w)"

lemma ret_apply [exc_simps]: "ret a w = (Inr a, w)"
  by (simp add: ret_def)

lemma raise_apply [exc_simps]: "raise e w = (Inl e, w)"
  by (simp add: raise_def)

lemma of_sum_apply [exc_simps]: "of_sum r w = (r, w)"
  by (simp add: of_sum_def)

lemma update_apply [exc_simps]: "update f w = (Inr (), f w)"
  by (simp add: update_def)

lemma ebind_apply [exc_simps]:
  "ebind m f w = (case m w of (Inl e, w') \<Rightarrow> (Inl e, w') | (Inr a, w') \<Rightarrow> f a w')"
  by (simp add: ebind_def)

lemma try_except_apply [exc_simps]:
  "try_except m h w = (case m w of (Inl e, w') \<Rightarrow> h e w' | (Inr a, w') \<Rightarrow> (Inr a, w'))"
  by (simp add: try_except_def)

lemma ebind_ret_left: "ebind (ret a) f = f a"
  by (simp add: fun_eq_iff exc_simps)

lemma ebind_ret_right: "ebind m ret = m"
  by (auto simp: fun_eq_iff exc_simps split: prod.splits sum.splits)

lemma ebind_assoc: "ebind (ebind m f) g = ebind m (\<lambda>a. ebind (f a) g)"
  by (auto simp: fun_eq_iff exc_simps split: prod.splits sum.splits)

lemma ebind_raise: "ebind (raise e) f = raise e"
  by (simp add: fun_eq_iff exc_simps)

text \<open>A statement that raises: the outcome is the exception of the first statement that raised.\<close>

lemma ebind_Inl [exc_simps]: "m w = (Inl e, w') \<Longrightarrow> ebind m f w = (Inl e, w')"
  by (simp add: ebind_def)

lemma ebind_Inr [exc_simps]: "m w = (Inr a, w') \<Longrightarrow> ebind m f w = f a w'"
  by (simp add: ebind_def)

lemma ebind_cases:
  assumes "ebind m f w = (r, w'')"
  obtains (raised) e where "m w = (Inl e, w'')" and "r = Inl e"
  | (returned) a w' where "m w = (Inr a, w')" and "f a w' = (r, w'')"
  using assms by (cases "m w" rule: prod.exhaust) (auto simp: ebind_def split: sum.splits)

section \<open>Generic list facts\<close>

lemma length_filter_le_append: "length (filter P (xs @ ys)) \<le> length xs + length ys"
  by (metis length_append length_filter_le)

end
