(* ===== verification/PyBuiltins.thy ===== *)
theory PyBuiltins
  imports Prelude
begin

text \<open>
  The Python builtins the program calls, as far as it calls them:
  \<^verbatim>\<open>range(start, stop, step)\<close> with a positive step (\<open>range_step\<close>; the source's only
  call is \<^verbatim>\<open>range(0, min(self.count, STOP_AT_RECORD), batch_size)\<close> with
  \<^verbatim>\<open>batch_size = 500\<close>), \<^verbatim>\<open>int(s)\<close> of a string in base 10 (\<open>py_int\<close>, raising
  \<open>ValueError\<close>), and \<^verbatim>\<open>str(i)\<close> of an integer (\<open>py_str\<close>), which the f-strings and the
  CSV writer use. Characters are 8-bit, so the Unicode digits and spaces that Python's
  \<^verbatim>\<open>int()\<close> also accepts are out of scope; the ASCII whitespace that \<^verbatim>\<open>int()\<close> strips
  (tab to carriage return, the four separators 28 to 31, and space) is modelled.
\<close>

section \<open>range with a positive step\<close>

function range_step :: "int \<Rightarrow> int \<Rightarrow> nat \<Rightarrow> int list" where
  "range_step i stop step =
     (if 0 < step \<and> i < stop then i # range_step (i + int step) stop step else [])"
  by pat_completeness auto
termination
  by (relation "measure (\<lambda>(i, stop, step). nat (stop - i))") auto

declare range_step.simps [simp del]

section \<open>str() of an integer\<close>

definition digit_char :: "nat \<Rightarrow> char" where
  "digit_char d = char_of (48 + d)"

fun dec_nat :: "nat \<Rightarrow> string" where
  "dec_nat n = (if n < 10 then [digit_char n] else dec_nat (n div 10) @ [digit_char (n mod 10)])"

declare dec_nat.simps [simp del]

definition py_str :: "int \<Rightarrow> string" where
  "py_str i = (if i < 0 then CHR ''-'' # dec_nat (nat (- i)) else dec_nat (nat i))"

section \<open>int() of a string\<close>

definition is_digit :: "char \<Rightarrow> bool" where
  "is_digit c \<longleftrightarrow> (48::nat) \<le> of_char c \<and> of_char c \<le> (57::nat)"

definition digit_val :: "char \<Rightarrow> nat" where
  "digit_val c = of_char c - 48"

definition is_py_space :: "char \<Rightarrow> bool" where
  "is_py_space c \<longleftrightarrow> ((9::nat) \<le> of_char c \<and> of_char c \<le> (13::nat)) \<or> ((28::nat) \<le> of_char c \<and> of_char c \<le> (32::nat))"

definition py_strip :: "string \<Rightarrow> string" where
  "py_strip s = rev (dropWhile is_py_space (rev (dropWhile is_py_space s)))"

text \<open>
  The digits after the sign: one or more decimal digits, where a single underscore may
  separate two digits. \<open>dec_digits acc cs\<close> reads \<open>cs\<close> after the digits already
  read into \<open>acc\<close>.
\<close>

fun dec_digits :: "nat \<Rightarrow> string \<Rightarrow> nat option" where
  "dec_digits acc [] = Some acc"
| "dec_digits acc (c # cs) =
     (if is_digit c then dec_digits (10 * acc + digit_val c) cs
      else if c = CHR ''_'' then
        (case cs of
           d # ds \<Rightarrow> if is_digit d then dec_digits (10 * acc + digit_val d) ds else None
         | [] \<Rightarrow> None)
      else None)"

definition unsigned_dec :: "string \<Rightarrow> nat option" where
  "unsigned_dec s =
     (case s of d # ds \<Rightarrow> if is_digit d then dec_digits (digit_val d) ds else None | [] \<Rightarrow> None)"

definition signed_dec :: "string \<Rightarrow> int option" where
  "signed_dec s =
     (case s of
        c # cs \<Rightarrow>
          if c = CHR ''-'' then map_option (\<lambda>n. - int n) (unsigned_dec cs)
          else if c = CHR ''+'' then map_option int (unsigned_dec cs)
          else map_option int (unsigned_dec s)
      | [] \<Rightarrow> None)"

definition py_int :: "string \<Rightarrow> pyerr + int" where
  "py_int s = (case signed_dec (py_strip s) of None \<Rightarrow> Inl (ValueError s) | Some i \<Rightarrow> Inr i)"

section \<open>Facts about range\<close>

lemma range_step_Nil [simp]: "\<not> i < stop \<Longrightarrow> range_step i stop step = []"
  by (simp add: range_step.simps)

lemma range_step_Cons [simp]:
  "0 < step \<Longrightarrow> i < stop \<Longrightarrow> range_step i stop step = i # range_step (i + int step) stop step"
  by (simp add: range_step.simps [of i])

lemma set_range_step:
  "0 < step \<Longrightarrow> x \<in> set (range_step i stop step) \<longleftrightarrow> i \<le> x \<and> x < stop \<and> int step dvd (x - i)"
proof (induction i stop step rule: range_step.induct)
  case (1 i stop step)
  show ?case
  proof (cases "i < stop")
    case False
    then show ?thesis by auto
  next
    case True
    have IH: "x \<in> set (range_step (i + int step) stop step) \<longleftrightarrow>
        i + int step \<le> x \<and> x < stop \<and> int step dvd (x - (i + int step))"
      using "1.IH" "1.prems" True by blast
    have "int step dvd (x - (i + int step)) \<longleftrightarrow> int step dvd (x - i)"
      by (metis diff_diff_eq dvd_diff dvd_refl diff_add_cancel dvd_add)
    moreover have "i < x \<Longrightarrow> int step dvd (x - i) \<Longrightarrow> i + int step \<le> x"
      by (auto dest!: zdvd_imp_le)
    ultimately show ?thesis
      using IH True "1.prems" by auto
  qed
qed

lemma sorted_range_step: "sorted_wrt (<) (range_step i stop step)"
proof (induction i stop step rule: range_step.induct)
  case (1 i stop step)
  show ?case
  proof (cases "0 < step \<and> i < stop")
    case True
    have "\<forall>x\<in>set (range_step (i + int step) stop step). i < x"
      using True by (auto simp: set_range_step)
    then show ?thesis using "1.IH" True by simp
  next
    case False
    then show ?thesis by (auto simp: range_step.simps [of i])
  qed
qed

lemma length_range_step:
  "0 < step \<Longrightarrow> length (range_step i stop step) = nat ((stop - i + int step - 1) div int step)"
proof (induction i stop step rule: range_step.induct)
  case (1 i stop step)
  show ?case
  proof (cases "i < stop")
    case False
    have "(stop - i + int step - 1) div int step \<le> (int step - 1) div int step"
      using "1.prems" False by (intro zdiv_mono1) auto
    moreover have "(int step - 1) div int step = 0"
      using "1.prems" by (simp add: div_pos_pos_trivial)
    ultimately show ?thesis using False by simp
  next
    case True
    let ?a = "stop - (i + int step) + int step - 1"
    have "(?a + int step) div int step = ?a div int step + 1"
      using "1.prems" by (intro div_add_self2) simp
    moreover have "0 \<le> ?a div int step"
      using True "1.prems" by (simp add: pos_imp_zdiv_nonneg_iff)
    ultimately show ?thesis
      using "1.IH" "1.prems" True by (simp add: algebra_simps nat_add_distrib)
  qed
qed

section \<open>Round trip: int(str(i)) = i\<close>

lemma digit_char_props:
  "d < 10 \<Longrightarrow> is_digit (digit_char d) \<and> digit_val (digit_char d) = d"
  by (simp add: digit_char_def is_digit_def digit_val_def of_char_of)

lemma dec_nat_digits: "c \<in> set (dec_nat n) \<Longrightarrow> is_digit c"
proof (induction n rule: dec_nat.induct)
  case (1 n)
  then show ?case
    by (cases "n < 10") (auto simp: dec_nat.simps [of n] digit_char_props)
qed

lemma dec_nat_not_Nil: "dec_nat n \<noteq> []"
  by (simp add: dec_nat.simps [of n])

lemma dec_digits_all_digits:
  "\<forall>c\<in>set xs. is_digit c \<Longrightarrow> dec_digits acc xs = Some (foldl (\<lambda>a c. 10 * a + digit_val c) acc xs)"
  by (induction xs arbitrary: acc) auto

lemma foldl_dec_nat: "foldl (\<lambda>a c. 10 * a + digit_val c) 0 (dec_nat n) = n"
proof (induction n rule: dec_nat.induct)
  case (1 n)
  then show ?case
    by (cases "n < 10") (simp_all add: dec_nat.simps [of n] digit_char_props)
qed

lemma unsigned_dec_dec_nat: "unsigned_dec (dec_nat n) = Some n"
proof (cases "dec_nat n")
  case Nil
  then show ?thesis by (simp add: dec_nat_not_Nil)
next
  case (Cons d ds)
  then have dig: "\<forall>c\<in>set (d # ds). is_digit c"
    by (metis dec_nat_digits)
  have "foldl (\<lambda>a c. 10 * a + digit_val c) 0 (d # ds) = n"
    using Cons foldl_dec_nat by metis
  with dig show ?thesis
    using Cons by (simp add: unsigned_dec_def dec_digits_all_digits)
qed

lemma py_strip_no_space: "\<forall>c\<in>set s. \<not> is_py_space c \<Longrightarrow> py_strip s = s"
proof -
  assume "\<forall>c\<in>set s. \<not> is_py_space c"
  then have "dropWhile is_py_space s = s" and "dropWhile is_py_space (rev s) = rev s"
    by (auto simp: dropWhile_eq_self_iff hd_rev)
  then show ?thesis by (simp add: py_strip_def)
qed

lemma digit_not_space: "is_digit c \<Longrightarrow> \<not> is_py_space c"
  by (simp add: is_digit_def is_py_space_def)

lemma minus_not_space: "\<not> is_py_space CHR ''-''"
  by (simp add: is_py_space_def)

lemma py_str_no_space: "\<forall>c\<in>set (py_str i). \<not> is_py_space c"
  by (auto simp: py_str_def minus_not_space dest: dec_nat_digits digit_not_space)

lemma digit_not_sign: "is_digit c \<Longrightarrow> c \<noteq> CHR ''-'' \<and> c \<noteq> CHR ''+''"
  by (auto simp: is_digit_def)

lemma signed_dec_py_str: "signed_dec (py_str i) = Some i"
proof (cases "i < 0")
  case True
  then show ?thesis by (simp add: py_str_def signed_dec_def unsigned_dec_dec_nat)
next
  case False
  obtain d ds where dn: "dec_nat (nat i) = d # ds"
    using dec_nat_not_Nil by (metis list.exhaust)
  then have "is_digit d" by (metis dec_nat_digits list.set_intros(1))
  with False dn show ?thesis
    using unsigned_dec_dec_nat [of "nat i"] digit_not_sign [of d]
    by (simp add: py_str_def signed_dec_def)
qed

text \<open>\<^verbatim>\<open>int(str(i)) == i\<close> for every integer.\<close>

lemma py_int_py_str: "py_int (py_str i) = Inr i"
  by (simp add: py_int_def py_strip_no_space py_str_no_space signed_dec_py_str)

lemma py_int_examples:
  "py_int '' -4_2 '' = Inr (-42)" and "py_int ''4__2'' = Inl (ValueError ''4__2'')"
  by code_simp+

end
