(* ===== verification/Entrez.thy ===== *)
theory Entrez
  imports Prelude
begin

text \<open>
  The program's external collaborators, modelled from the spec (their code is Biopython,
  not part of the repository): the Entrez client \<^verbatim>\<open>Bio.Entrez\<close> (its module-level
  configuration and the three calls the program makes) and the GenBank reader
  \<^verbatim>\<open>Bio.SeqIO.parse(handle, "gb")\<close>. The database is a \<open>service\<close>: a record of three
  functions, one per kind of call, each of which may raise. The outside world the program
  can observe and change is an \<open>io_world\<close>: the list of \<open>event\<close>s produced so far (requests
  sent, lines printed, pauses, prompts, files written) and the lines still unread on
  standard input. Every call appends its request to the events before it returns, so a
  theorem can state which requests the program sent and in which order.
\<close>

section \<open>Client configuration and replies\<close>

text \<open>\<^verbatim>\<open>Entrez.email\<close>, \<^verbatim>\<open>Entrez.api_key\<close>, \<^verbatim>\<open>Entrez.tool\<close>: module globals, unset at import.\<close>

record entrez_cfg =
  entrez_email :: "string option"
  entrez_api_key :: "string option"
  entrez_tool :: "string option"

text \<open>
  \<^verbatim>\<open>Entrez.read\<close> turns an XML reply into dictionaries of strings; a key the reply lacks
  is absent from the dictionary, and indexing it raises \<open>KeyError\<close>.
\<close>

type_synonym xml_dict = "string \<Rightarrow> string option"

definition py_getitem :: "xml_dict \<Rightarrow> string \<Rightarrow> pyerr + string" where
  "py_getitem d k = (case d k of None \<Rightarrow> Inl (KeyError k) | Some v \<Rightarrow> Inr v)"

definition py_index0 :: "'a list \<Rightarrow> pyerr + 'a" where
  "py_index0 xs = (case xs of [] \<Rightarrow> Inl IndexError | x # _ \<Rightarrow> Inr x)"

text \<open>A GenBank record as \<^verbatim>\<open>SeqIO\<close> yields it: \<^verbatim>\<open>record.id\<close>, \<^verbatim>\<open>len(record.seq)\<close>, \<^verbatim>\<open>record.description\<close>.\<close>

record seq_record =
  rec_id :: string
  rec_seq_len :: nat
  rec_description :: string

text \<open>
  The database as the program sees it. \<open>taxonomy_efetch taxid\<close> is
  \<^verbatim>\<open>Entrez.read(Entrez.efetch(db="taxonomy", id=taxid, retmode="xml"))\<close>;
  \<open>nucleotide_esearch term\<close> is
  \<^verbatim>\<open>Entrez.read(Entrez.esearch(db="nucleotide", term=term, usehistory="y"))\<close>;
  \<open>nucleotide_efetch webenv query_key retstart retmax\<close> is the list of records that
  \<^verbatim>\<open>SeqIO.parse\<close> reads from \<^verbatim>\<open>Entrez.efetch(db="nucleotide", rettype="gb", ...)\<close>.
  A reply that fails to arrive or to decode is an exception \<open>Inl\<close>.
\<close>

record service =
  taxonomy_efetch :: "string \<Rightarrow> pyerr + xml_dict list"
  nucleotide_esearch :: "string \<Rightarrow> pyerr + xml_dict"
  nucleotide_efetch :: "string \<Rightarrow> string \<Rightarrow> int \<Rightarrow> nat \<Rightarrow> pyerr + seq_record list"

section \<open>Observable events\<close>

text \<open>
  A matplotlib figure as the program sets it up before \<^verbatim>\<open>plt.savefig\<close>: its size in
  inches, the plotted points in x order (x labels and y values of \<^verbatim>\<open>plt.plot\<close>), the
  marker, the rotation and font size of the x tick labels, the axis labels, the title, and
  whether \<^verbatim>\<open>tight_layout\<close> was applied.
\<close>

record figure =
  fig_size :: "int \<times> int"
  fig_points :: "(string \<times> nat) list"
  fig_marker :: string
  fig_xtick_rotation :: int
  fig_xtick_fontsize :: int
  fig_xlabel :: string
  fig_ylabel :: string
  fig_title :: string
  fig_tight :: bool

datatype request =
    TaxonomyFetch string
  | NucleotideSearch string
  | NucleotideFetch string string int nat   \<comment> \<open>webenv, query_key, retstart, retmax\<close>

datatype event =
    Request request
  | Print string                    \<comment> \<open>one \<^verbatim>\<open>print\<close> line\<close>
  | Prompt string                   \<comment> \<open>the prompt \<^verbatim>\<open>input\<close> writes\<close>
  | Sleep                           \<comment> \<open>\<^verbatim>\<open>time.sleep(0.1)\<close>\<close>
  | WriteCsv string string          \<comment> \<open>file name, file content\<close>
  | SavePlot string figure            \<comment> \<open>file name, the figure saved\<close>

record io_world =
  events :: "event list"
  stdin :: "string list"

definition emit :: "event \<Rightarrow> ('a io_world_scheme, unit) exc" where
  "emit e = update (\<lambda>w. w\<lparr>events := events w @ [e]\<rparr>)"

definition py_print :: "string \<Rightarrow> ('a io_world_scheme, unit) exc" where
  "py_print s = emit (Print s)"

text \<open>\<^verbatim>\<open>input(prompt)\<close>: writes the prompt, then reads one line or raises \<open>EOFError\<close>.\<close>

definition py_input :: "string \<Rightarrow> ('a io_world_scheme, string) exc" where
  "py_input p =
     ebind (emit (Prompt p))
       (\<lambda>_ w. case stdin w of [] \<Rightarrow> (Inl EOFError, w) | l # ls \<Rightarrow> (Inr l, w\<lparr>stdin := ls\<rparr>))"

section \<open>The three calls\<close>

definition efetch_taxonomy :: "service \<Rightarrow> string \<Rightarrow> ('a io_world_scheme, xml_dict list) exc" where
  "efetch_taxonomy svc taxid =
     ebind (emit (Request (TaxonomyFetch taxid))) (\<lambda>_. of_sum (taxonomy_efetch svc taxid))"

definition esearch_nucleotide :: "service \<Rightarrow> string \<Rightarrow> ('a io_world_scheme, xml_dict) exc" where
  "esearch_nucleotide svc term =
     ebind (emit (Request (NucleotideSearch term))) (\<lambda>_. of_sum (nucleotide_esearch svc term))"

definition efetch_nucleotide ::
  "service \<Rightarrow> string \<Rightarrow> string \<Rightarrow> int \<Rightarrow> nat \<Rightarrow> ('a io_world_scheme, seq_record list) exc" where
  "efetch_nucleotide svc we qk start n =
     ebind (emit (Request (NucleotideFetch we qk start n)))
       (\<lambda>_. of_sum (nucleotide_efetch svc we qk start n))"

section \<open>Observations on event lists\<close>

text \<open>The \<^verbatim>\<open>retstart\<close> offsets of the batch requests in a list of events, in order.\<close>

fun fetch_starts :: "event list \<Rightarrow> int list" where
  "fetch_starts [] = []"
| "fetch_starts (Request (NucleotideFetch we qk s n) # es) = s # fetch_starts es"
| "fetch_starts (_ # es) = fetch_starts es"

fun sleeps :: "event list \<Rightarrow> nat" where
  "sleeps [] = 0"
| "sleeps (Sleep # es) = Suc (sleeps es)"
| "sleeps (_ # es) = sleeps es"

definition files_written :: "event list \<Rightarrow> string list" where
  "files_written es = [f. e \<leftarrow> es, f \<leftarrow> (case e of WriteCsv f _ \<Rightarrow> [f] | SavePlot f _ \<Rightarrow> [f] | _ \<Rightarrow> [])]"

lemmas io_defs [model_defs] =
  emit_def py_print_def py_input_def efetch_taxonomy_def esearch_nucleotide_def
  efetch_nucleotide_def py_getitem_def py_index0_def

lemma fetch_starts_append [simp]: "fetch_starts (xs @ ys) = fetch_starts xs @ fetch_starts ys"
  by (induction xs rule: fetch_starts.induct) auto

lemma sleeps_append [simp]: "sleeps (xs @ ys) = sleeps xs + sleeps ys"
  by (induction xs rule: sleeps.induct) auto

lemma files_written_append [simp]: "files_written (xs @ ys) = files_written xs @ files_written ys"
  by (simp add: files_written_def)

end
