(* ===== verification/Retriever.thy ===== *)
theory Retriever
  imports PyBuiltins Entrez "HOL-Library.Sublist"
begin

text \<open>
  The class \<^verbatim>\<open>NCBIRetriever\<close> (src/2025py2_s27542/s27542_2025-2.py, lines 5 to 67).
  An instance is the record \<open>retriever\<close>: its four attributes, each \<open>None\<close> until the
  code first assigns it (reading an unset attribute raises \<open>AttributeError\<close>). The world
  the methods run in extends the \<open>io_world\<close> of \<open>Entrez\<close> with the client's module
  configuration and the one instance \<^verbatim>\<open>main\<close> creates. \<open>init_retriever\<close> is
  \<^verbatim>\<open>__init__\<close>, \<open>search_taxid\<close> the search phase, \<open>fetch_filtered_records\<close> the
  paginated fetch, whose loop body is \<open>fetch_loop\<close> and whose inner record loop is
  \<open>append_matching\<close>.
\<close>

section \<open>State\<close>

definition STOP_AT_RECORD :: int where
  "STOP_AT_RECORD = 5000"

record retriever =
  organism_name :: "string option"
  count :: "int option"
  webenv :: "string option"
  query_key :: "string option"

record world = io_world +
  entrez :: entrez_cfg
  retr :: retriever

text \<open>One row of the result: the dictionary \<^verbatim>\<open>{"accession", "length", "description"}\<close>.\<close>

record row =
  accession :: string
  seq_length :: nat
  description :: string

definition get_attr :: "(retriever \<Rightarrow> 'a option) \<Rightarrow> string \<Rightarrow> (world, 'a) exc" where
  "get_attr sel name w =
     (case sel (retr w) of None \<Rightarrow> (Inl (AttributeError name), w) | Some v \<Rightarrow> (Inr v, w))"

definition set_retr :: "(retriever \<Rightarrow> retriever) \<Rightarrow> (world, unit) exc" where
  "set_retr f = update (\<lambda>w. w\<lparr>retr := f (retr w)\<rparr>)"

section \<open>Operations\<close>

text \<open>\<^verbatim>\<open>__init__(self, email, api_key)\<close>: sets the client's globals; the new instance has no attributes.\<close>

definition init_retriever :: "string \<Rightarrow> string \<Rightarrow> (world, unit) exc" where
  "init_retriever e k =
     update (\<lambda>w. w\<lparr>entrez := \<lparr>entrez_email = Some e, entrez_api_key = Some k,
                               entrez_tool = Some ''BioScriptEx10''\<rparr>,
                   retr := \<lparr>organism_name = None, count = None, webenv = None, query_key = None\<rparr>\<rparr>)"

text \<open>
  \<^verbatim>\<open>search_taxid(self, taxid)\<close>: \<open>search_body\<close> is its \<^verbatim>\<open>try\<close> block (lines 13 to 32),
  \<open>search_taxid\<close> adds the \<^verbatim>\<open>except\<close> clause (lines 33 to 35). The Python value
  returned is \<^verbatim>\<open>None\<close> (\<open>None\<close>) or an integer (\<open>Some\<close>). Every exception of the \<^verbatim>\<open>try\<close> body is caught, printed, and turned
  into the return value \<open>0\<close>; the attributes assigned before the exception stay assigned.
\<close>

definition search_body :: "service \<Rightarrow> string \<Rightarrow> (world, int option) exc" where
  "search_body svc taxid =
     ebind (efetch_taxonomy svc taxid) (\<lambda>records.
     ebind (of_sum (py_index0 records)) (\<lambda>record0.
     ebind (of_sum (py_getitem record0 ''ScientificName'')) (\<lambda>name.
     ebind (set_retr (organism_name_update (\<lambda>_. Some name))) (\<lambda>_.
     ebind (py_print (''Organism: '' @ name @ '' (TaxID: '' @ taxid @ '')'')) (\<lambda>_.
     ebind (esearch_nucleotide svc (''txid'' @ taxid @ ''[Organism]'')) (\<lambda>results.
     ebind (of_sum (py_getitem results ''Count'')) (\<lambda>count_str.
     ebind (of_sum (py_int count_str)) (\<lambda>c.
     ebind (set_retr (count_update (\<lambda>_. Some c))) (\<lambda>_.
     if c = 0 then
       ebind (py_print (''No records found for '' @ name)) (\<lambda>_. ret None)
     else
       ebind (py_print (''Found '' @ py_str c @ '' records'')) (\<lambda>_.
       ebind (of_sum (py_getitem results ''WebEnv'')) (\<lambda>we.
       ebind (set_retr (webenv_update (\<lambda>_. Some we))) (\<lambda>_.
       ebind (of_sum (py_getitem results ''QueryKey'')) (\<lambda>qk.
       ebind (set_retr (query_key_update (\<lambda>_. Some qk))) (\<lambda>_.
       ebind (py_print (''Found '' @ py_str c @ '' records.'')) (\<lambda>_.
       ret (Some c))))))))))))))))"

definition search_taxid :: "service \<Rightarrow> string \<Rightarrow> (world, int option) exc" where
  "search_taxid svc taxid =
     try_except (search_body svc taxid)
       (\<lambda>e. ebind (py_print (''Search error: '' @ err_str e)) (\<lambda>_. ret (Some 0)))"

text \<open>
  The constants of \<^verbatim>\<open>fetch_filtered_records\<close>: the local \<^verbatim>\<open>batch_size = 500\<close> and the
  literal \<^verbatim>\<open>500\<close> of the test \<^verbatim>\<open>len(records) >= 500\<close>.
\<close>

definition batch_size :: nat where
  "batch_size = 500"

definition result_cap :: nat where
  "result_cap = 500"

definition in_bounds :: "int \<Rightarrow> int \<Rightarrow> seq_record \<Rightarrow> bool" where
  "in_bounds min_len max_len r \<longleftrightarrow> min_len \<le> int (rec_seq_len r) \<and> int (rec_seq_len r) \<le> max_len"

definition row_of :: "seq_record \<Rightarrow> row" where
  "row_of r = \<lparr>accession = rec_id r, seq_length = rec_seq_len r, description = rec_description r\<rparr>"

text \<open>The inner loop over the records of one batch (lines 55 to 62).\<close>

primrec append_matching :: "int \<Rightarrow> int \<Rightarrow> row list \<Rightarrow> seq_record list \<Rightarrow> row list" where
  "append_matching min_len max_len records [] = records"
| "append_matching min_len max_len records (r # rs) =
     append_matching min_len max_len
       (if in_bounds min_len max_len r then records @ [row_of r] else records) rs"

text \<open>
  The outer loop (lines 42 to 66), over the batch offsets still to go: print the progress
  line, read the session attributes, fetch the batch, filter it into the rows, stop as
  soon as there are at least \<open>result_cap\<close> rows, otherwise pause and go on.
\<close>

primrec fetch_loop ::
  "service \<Rightarrow> int \<Rightarrow> int \<Rightarrow> int list \<Rightarrow> row list \<Rightarrow> (world, row list) exc" where
  "fetch_loop svc min_len max_len [] records = ret records"
| "fetch_loop svc min_len max_len (start # starts) records =
     ebind (py_print (''Fetching in progress :'' @ py_str start)) (\<lambda>_.
     ebind (get_attr webenv ''webenv'') (\<lambda>we.
     ebind (get_attr query_key ''query_key'') (\<lambda>qk.
     ebind (efetch_nucleotide svc we qk start batch_size) (\<lambda>batch.
     let records' = append_matching min_len max_len records batch in
     if result_cap \<le> length records' then ret records'
     else ebind (emit Sleep) (\<lambda>_. fetch_loop svc min_len max_len starts records')))))"

definition fetch_filtered_records :: "service \<Rightarrow> int \<Rightarrow> int \<Rightarrow> (world, row list) exc" where
  "fetch_filtered_records svc min_len max_len =
     ebind (get_attr count ''count'') (\<lambda>c.
       fetch_loop svc min_len max_len (range_step 0 (min c STOP_AT_RECORD) batch_size) [])"

section \<open>Specification of the fetch\<close>

text \<open>
  What the paginated fetch promises, stated without its loop: \<open>filter_rows\<close> is the rows
  one batch contributes (its records whose length lies in the closed interval, in order),
  and \<open>capped_concat cap bss\<close> concatenates the batches \<open>bss\<close> up to and including the
  first batch after which there are at least \<open>cap\<close> rows, or all of them when that never
  happens. The cap is checked only between batches, so the result may be longer than
  \<open>cap\<close>.
\<close>

definition filter_rows :: "int \<Rightarrow> int \<Rightarrow> seq_record list \<Rightarrow> row list" where
  "filter_rows min_len max_len batch = map row_of (filter (in_bounds min_len max_len) batch)"

definition capped_concat :: "nat \<Rightarrow> 'a list list \<Rightarrow> 'a list" where
  "capped_concat cap bss =
     (case find (\<lambda>p. p \<noteq> [] \<and> cap \<le> length (concat p)) (prefixes bss) of
        Some p \<Rightarrow> concat p
      | None \<Rightarrow> concat bss)"

section \<open>Example inputs\<close>

text \<open>
  Concrete services and worlds at which the witnesses below evaluate the operations.
  \<open>demo_svc\<close> answers every batch request with at most \<open>retmax\<close> of two records, one
  5 and one 50 bases long; \<open>overflow_svc\<close> answers the first batch with 499 records and
  every later one with 500, all 100 bases long; \<open>failing_svc\<close> fails on the batch at
  offset 500; \<open>zero_svc\<close> finds no records, and \<open>broken_svc\<close> fails on the taxonomy
  lookup; \<open>scenario_svc\<close> is the spec's scenario, every batch full of records 500
  bases long. \<open>searched_world c\<close> is a world after a successful search that found \<open>c\<close>
  records.
\<close>

definition rec_short :: seq_record where
  "rec_short = \<lparr>rec_id = ''AB000001.1'', rec_seq_len = 5, rec_description = ''short''\<rparr>"

definition rec_long :: seq_record where
  "rec_long = \<lparr>rec_id = ''AB000002.1'', rec_seq_len = 50, rec_description = ''long''\<rparr>"

definition rec100 :: seq_record where
  "rec100 = \<lparr>rec_id = ''X1'', rec_seq_len = 100, rec_description = ''''\<rparr>"

definition demo_svc :: service where
  "demo_svc = \<lparr>taxonomy_efetch = (\<lambda>t. Inr [Map.empty(''ScientificName'' \<mapsto> ''Homo sapiens'')]),
     nucleotide_esearch =
       (\<lambda>t. Inr (Map.empty(''Count'' \<mapsto> ''700'', ''WebEnv'' \<mapsto> ''WE1'', ''QueryKey'' \<mapsto> ''1''))),
     nucleotide_efetch = (\<lambda>we qk s n. Inr (take n [rec_short, rec_long]))\<rparr>"

definition overflow_svc :: service where
  "overflow_svc = \<lparr>taxonomy_efetch = (\<lambda>t. Inr []), nucleotide_esearch = (\<lambda>t. Inr Map.empty),
     nucleotide_efetch = (\<lambda>we qk s n. Inr (replicate (if s = 0 then 499 else 500) rec100))\<rparr>"

definition failing_svc :: service where
  "failing_svc = demo_svc\<lparr>nucleotide_efetch := (\<lambda>we qk s n.
     if s = 500 then Inl (ServiceError ''HTTP Error 500'') else Inr (take n [rec_short, rec_long]))\<rparr>"

definition zero_svc :: service where
  "zero_svc = demo_svc\<lparr>nucleotide_esearch := (\<lambda>t. Inr (Map.empty(''Count'' \<mapsto> ''0'')))\<rparr>"

definition broken_svc :: service where
  "broken_svc = demo_svc\<lparr>taxonomy_efetch := (\<lambda>t. Inl (ServiceError ''HTTP Error 400''))\<rparr>"

definition rec500 :: seq_record where
  "rec500 = \<lparr>rec_id = ''X5'', rec_seq_len = 500, rec_description = ''''\<rparr>"

definition scenario_svc :: service where
  "scenario_svc = demo_svc\<lparr>nucleotide_efetch := (\<lambda>we qk s n. Inr (replicate n rec500))\<rparr>"

definition searched_world :: "int \<Rightarrow> world" where
  "searched_world c = \<lparr>events = [], stdin = [],
     entrez = \<lparr>entrez_email = None, entrez_api_key = None, entrez_tool = None\<rparr>,
     retr = \<lparr>organism_name = Some ''Homo sapiens'', count = Some c, webenv = Some ''WE1'',
             query_key = Some ''1''\<rparr>\<rparr>"

definition fresh_world :: world where
  "fresh_world = \<lparr>events = [], stdin = [],
     entrez = \<lparr>entrez_email = None, entrez_api_key = None, entrez_tool = None\<rparr>,
     retr = \<lparr>organism_name = None, count = None, webenv = None, query_key = None\<rparr>\<rparr>"

section \<open>The fetch loop, step by step\<close>

lemma append_matching_filter:
  "append_matching min_len max_len records batch = records @ filter_rows min_len max_len batch"
  by (induction batch arbitrary: records) (auto simp: filter_rows_def)

lemma fetch_loop_no_webenv:
  "webenv (retr w) = None \<Longrightarrow>
   fetch_loop svc mn mx (s # ss) acc w =
     (Inl (AttributeError ''webenv''), w\<lparr>events := events w @ [Print (''Fetching in progress :'' @ py_str s)]\<rparr>)"
  by (simp add: exc_simps model_defs get_attr_def)

lemma fetch_loop_no_query_key:
  "webenv (retr w) = Some we \<Longrightarrow> query_key (retr w) = None \<Longrightarrow>
   fetch_loop svc mn mx (s # ss) acc w =
     (Inl (AttributeError ''query_key''), w\<lparr>events := events w @ [Print (''Fetching in progress :'' @ py_str s)]\<rparr>)"
  by (simp add: exc_simps model_defs get_attr_def split: option.splits)

lemma fetch_loop_step:
  assumes "webenv (retr w) = Some we" and "query_key (retr w) = Some qk"
  shows "fetch_loop svc mn mx (s # ss) acc w =
    (let w1 = w\<lparr>events := events w @ [Print (''Fetching in progress :'' @ py_str s),
                                      Request (NucleotideFetch we qk s batch_size)]\<rparr> in
     case nucleotide_efetch svc we qk s batch_size of
       Inl e \<Rightarrow> (Inl e, w1)
     | Inr b \<Rightarrow>
         let acc' = acc @ filter_rows mn mx b in
         if result_cap \<le> length acc' then (Inr acc', w1)
         else fetch_loop svc mn mx ss acc' (w1\<lparr>events := events w1 @ [Sleep]\<rparr>))"
  using assms
  by (simp add: exc_simps model_defs get_attr_def append_matching_filter Let_def split: sum.splits)

declare fetch_loop.simps(2) [simp del]

lemma fetch_loop_ConsE:
  assumes run: "fetch_loop svc mn mx (s # ss) acc w = (r, w')"
  obtains (no_session) "webenv (retr w) = None \<or> query_key (retr w) = None"
      and "r = Inl (AttributeError (if webenv (retr w) = None then ''webenv'' else ''query_key''))"
      and "w' = w\<lparr>events := events w @ [Print (''Fetching in progress :'' @ py_str s)]\<rparr>"
  | (raised) we qk e where "webenv (retr w) = Some we" and "query_key (retr w) = Some qk"
      and "nucleotide_efetch svc we qk s batch_size = Inl e" and "r = Inl e"
      and "w' = w\<lparr>events := events w @ [Print (''Fetching in progress :'' @ py_str s),
                                      Request (NucleotideFetch we qk s batch_size)]\<rparr>"
  | (full) we qk b where "webenv (retr w) = Some we" and "query_key (retr w) = Some qk"
      and "nucleotide_efetch svc we qk s batch_size = Inr b"
      and "result_cap \<le> length (acc @ filter_rows mn mx b)" and "r = Inr (acc @ filter_rows mn mx b)"
      and "w' = w\<lparr>events := events w @ [Print (''Fetching in progress :'' @ py_str s),
                                      Request (NucleotideFetch we qk s batch_size)]\<rparr>"
  | (continue) we qk b where "webenv (retr w) = Some we" and "query_key (retr w) = Some qk"
      and "nucleotide_efetch svc we qk s batch_size = Inr b"
      and "\<not> result_cap \<le> length (acc @ filter_rows mn mx b)"
      and "fetch_loop svc mn mx ss (acc @ filter_rows mn mx b)
             (w\<lparr>events := events w @ [Print (''Fetching in progress :'' @ py_str s),
                                    Request (NucleotideFetch we qk s batch_size), Sleep]\<rparr>) = (r, w')"
proof (cases "webenv (retr w)")
  case None
  with run show ?thesis by (auto simp: fetch_loop_no_webenv intro: no_session)
next
  case (Some we)
  show ?thesis
  proof (cases "query_key (retr w)")
    case None
    with Some run show ?thesis by (auto simp: fetch_loop_no_query_key intro: no_session)
  next
    case (Some qk)
    with \<open>webenv (retr w) = Some we\<close> run show ?thesis
      by (cases "nucleotide_efetch svc we qk s batch_size")
        (auto simp: fetch_loop_step Let_def split: if_splits intro: raised full continue)
  qed
qed

lemma fetch_loop_frame:
  "fetch_loop svc mn mx ss acc w = (r, w') \<Longrightarrow>
   \<exists>new. w' = w\<lparr>events := events w @ new\<rparr> \<and> prefix (fetch_starts new) ss"
proof (induction ss arbitrary: acc w)
  case Nil
  then show ?case by (auto simp: exc_simps intro: exI [of _ "[]"])
next
  case (Cons s ss)
  from Cons.prems show ?case
  proof (cases rule: fetch_loop_ConsE)
    case (continue we qk b)
    then show ?thesis by (fastforce dest: Cons.IH)
  qed auto
qed

lemma fetch_loop_rows:
  "fetch_loop svc mn mx ss acc w = (Inr rows, w') \<Longrightarrow>
   \<exists>bs. rows = acc @ concat (map (filter_rows mn mx) bs)"
proof (induction ss arbitrary: acc w)
  case Nil
  then show ?case by (auto simp: exc_simps intro: exI [of _ "[]"])
next
  case (Cons s ss)
  from Cons.prems show ?case
  proof (cases rule: fetch_loop_ConsE)
    case (full we qk b)
    then show ?thesis by (auto intro: exI [of _ "[b]"])
  next
    case (continue we qk b)
    then obtain bs where "rows = (acc @ filter_rows mn mx b) @ concat (map (filter_rows mn mx) bs)"
      using Cons.IH by blast
    then show ?thesis by (auto intro: exI [of _ "b # bs"])
  qed auto
qed

lemma set_filter_rows:
  "r \<in> set (filter_rows mn mx b) \<Longrightarrow> mn \<le> int (seq_length r) \<and> int (seq_length r) \<le> mx"
  by (auto simp: filter_rows_def in_bounds_def row_of_def)

lemma fetch_loop_length:
  assumes bounded: "\<forall>we qk s n b. nucleotide_efetch svc we qk s n = Inr b \<longrightarrow> length b \<le> n"
  shows "fetch_loop svc mn mx ss acc w = (Inr rows, w') \<Longrightarrow> length acc < result_cap \<Longrightarrow>
         length rows < result_cap + batch_size"
proof (induction ss arbitrary: acc w)
  case Nil
  then show ?case by (auto simp: exc_simps)
next
  case (Cons s ss)
  from Cons.prems(1) show ?case
  proof (cases rule: fetch_loop_ConsE)
    case (full we qk b)
    have "length (filter_rows mn mx b) \<le> batch_size"
      using bounded full(3) by (force simp: filter_rows_def intro: le_trans [OF length_filter_le])
    with full Cons.prems(2) show ?thesis by simp
  next
    case (continue we qk b)
    then show ?thesis using Cons.IH by auto
  qed auto
qed

lemma find_map_option: "find P (map f xs) = map_option f (find (P \<circ> f) xs)"
  by (induction xs) auto

lemma find_prefixes_Cons:
  "find (\<lambda>p. p \<noteq> [] \<and> Q p) (prefixes (x # xs)) = map_option ((#) x) (find (\<lambda>p. Q (x # p)) (prefixes xs))"
  by (simp add: find_map_option comp_def)

lemma find_prefixes_nonempty:
  assumes "\<not> Q []"
  shows "find Q (prefixes xs) = find (\<lambda>p. p \<noteq> [] \<and> Q p) (prefixes xs)"
proof (cases xs)
  case Nil
  with assms show ?thesis by simp
next
  case (Cons x xs')
  have "find Q (map ((#) x) (prefixes xs')) = find (\<lambda>p. p \<noteq> [] \<and> Q p) (map ((#) x) (prefixes xs'))"
    by (rule find_cong) auto
  with assms Cons show ?thesis by simp
qed

lemma fetch_loop_capped:
  assumes "webenv (retr w) = Some we" and "query_key (retr w) = Some qk"
    and "\<forall>s\<in>set ss. nucleotide_efetch svc we qk s batch_size = Inr (B s)"
  shows "fst (fetch_loop svc mn mx ss acc w) =
    Inr (case find (\<lambda>p. p \<noteq> [] \<and> result_cap \<le> length (acc @ concat p))
                   (prefixes (map (\<lambda>s. filter_rows mn mx (B s)) ss)) of
           Some p \<Rightarrow> acc @ concat p
         | None \<Rightarrow> acc @ concat (map (\<lambda>s. filter_rows mn mx (B s)) ss))"
  using assms
proof (induction ss arbitrary: acc w)
  case Nil
  then show ?case by (simp add: exc_simps)
next
  case (Cons s ss)
  let ?F = "\<lambda>s. filter_rows mn mx (B s)"
  let ?acc' = "acc @ ?F s"
  let ?spec = "\<lambda>acc bss. case find (\<lambda>p. p \<noteq> [] \<and> result_cap \<le> length (acc @ concat p)) (prefixes bss) of
                  Some p \<Rightarrow> acc @ concat p | None \<Rightarrow> acc @ concat bss"
  show ?case
  proof (cases "result_cap \<le> length ?acc'")
    case True
    have spec: "?spec acc (map ?F (s # ss)) = ?acc'"
      using True by (cases ss) auto
    have "fst (fetch_loop svc mn mx (s # ss) acc w) = Inr ?acc'"
      using True Cons.prems by (simp add: fetch_loop_step)
    then show ?thesis by (simp only: spec)
  next
    case False
    have "find (\<lambda>p. p \<noteq> [] \<and> result_cap \<le> length (acc @ concat p)) (prefixes (map ?F (s # ss))) =
          map_option ((#) (?F s)) (find (\<lambda>p. result_cap \<le> length (?acc' @ concat p)) (prefixes (map ?F ss)))"
      unfolding list.map(2) find_prefixes_Cons by simp
    also have "find (\<lambda>p. result_cap \<le> length (?acc' @ concat p)) (prefixes (map ?F ss)) =
          find (\<lambda>p. p \<noteq> [] \<and> result_cap \<le> length (?acc' @ concat p)) (prefixes (map ?F ss))"
      using False by (intro find_prefixes_nonempty) simp
    finally have spec: "?spec acc (map ?F (s # ss)) = ?spec ?acc' (map ?F ss)"
      by (simp split: option.splits)
    have "fst (fetch_loop svc mn mx ss ?acc'
        (w\<lparr>events := events w @ [Print (''Fetching in progress :'' @ py_str s),
                                 Request (NucleotideFetch we qk s batch_size), Sleep]\<rparr>)) =
          Inr (?spec ?acc' (map ?F ss))"
      using Cons.prems by (intro Cons.IH) auto
    then have "fst (fetch_loop svc mn mx (s # ss) acc w) = Inr (?spec ?acc' (map ?F ss))"
      using False Cons.prems by (simp add: fetch_loop_step)
    then show ?thesis by (simp only: spec)
  qed
qed

lemma fetch_loop_capped_concat:
  assumes "webenv (retr w) = Some we" and "query_key (retr w) = Some qk"
    and "\<forall>s\<in>set ss. nucleotide_efetch svc we qk s batch_size = Inr (B s)"
  shows "fst (fetch_loop svc mn mx ss [] w) =
         Inr (capped_concat result_cap (map (\<lambda>s. filter_rows mn mx (B s)) ss))"
  using fetch_loop_capped [OF assms, of mn mx "[]"]
  by (simp add: capped_concat_def option.case_eq_if)

lemma fetch_loop_exhausts:
  "fetch_loop svc mn mx ss acc w = (Inr rows, w') \<Longrightarrow> length rows < result_cap \<Longrightarrow>
   \<exists>new. w' = w\<lparr>events := events w @ new\<rparr> \<and> fetch_starts new = ss \<and> sleeps new = length ss"
proof (induction ss arbitrary: acc w)
  case Nil
  then show ?case by (auto simp: exc_simps intro: exI [of _ "[]"])
next
  case (Cons s ss)
  from Cons.prems(1) show ?case
  proof (cases rule: fetch_loop_ConsE)
    case (continue we qk b)
    then show ?thesis using Cons.prems(2) by (fastforce dest: Cons.IH)
  qed (use Cons.prems(2) in auto)
qed

lemma fetch_loop_error:
  "fetch_loop svc mn mx ss acc w = (Inl e, w') \<Longrightarrow> webenv (retr w) = Some we \<Longrightarrow>
   query_key (retr w) = Some qk \<Longrightarrow> \<exists>s\<in>set ss. nucleotide_efetch svc we qk s batch_size = Inl e"
proof (induction ss arbitrary: acc w)
  case Nil
  then show ?case by (simp add: exc_simps)
next
  case (Cons s ss)
  from Cons.prems(1) show ?case
  proof (cases rule: fetch_loop_ConsE)
    case (continue we' qk' b)
    then show ?thesis using Cons.prems(2,3) Cons.IH by fastforce
  qed (use Cons.prems(2,3) in auto)
qed

section \<open>The fetch as a whole\<close>

lemma fetch_filtered_records_count:
  "count (retr w) = Some c \<Longrightarrow>
   fetch_filtered_records svc mn mx w =
     fetch_loop svc mn mx (range_step 0 (min c STOP_AT_RECORD) batch_size) [] w"
  by (simp add: fetch_filtered_records_def get_attr_def exc_simps)

lemma fetch_filtered_records_searched:
  assumes "fetch_filtered_records svc mn mx w = (r, w')"
  obtains c where "count (retr w) = Some c"
    and "fetch_loop svc mn mx (range_step 0 (min c STOP_AT_RECORD) batch_size) [] w = (r, w')"
  | "count (retr w) = None" and "r = Inl (AttributeError ''count'')" and "w' = w"
  using assms by (cases "count (retr w)") (auto simp: fetch_filtered_records_def get_attr_def exc_simps)

lemma run_collapse: "fst p = r \<Longrightarrow> p = (r, snd p)"
  by (metis prod.collapse)

text \<open>C1: every row the fetch returns has a length in the closed interval \<open>[min_len, max_len]\<close>.\<close>

theorem fetch_rows_in_bounds:
  assumes "fetch_filtered_records svc min_len max_len w = (Inr rows, w')"
  shows "\<forall>r\<in>set rows. min_len \<le> int (seq_length r) \<and> int (seq_length r) \<le> max_len"
  using assms
proof (cases rule: fetch_filtered_records_searched)
  case (1 c)
  then obtain bs where "rows = concat (map (filter_rows min_len max_len) bs)"
    using fetch_loop_rows by fastforce
  then show ?thesis by (auto dest: set_filter_rows)
qed simp

theorem fetch_rows_in_bounds_witness:
  "fst (fetch_filtered_records demo_svc 1 10 (searched_world 700)) = Inr [row_of rec_short, row_of rec_short] \<and>
   1 \<le> int (seq_length (row_of rec_short)) \<and> int (seq_length (row_of rec_short)) \<le> 10"
proof -
  have run: "fst (fetch_filtered_records demo_svc 1 10 (searched_world 700)) = Inr [row_of rec_short, row_of rec_short]"
    by code_simp
  show ?thesis using run fetch_rows_in_bounds [OF run_collapse [OF run]] by simp
qed

text \<open>
  C2: when the service answers every batch of the offset range, the fetch returns
  \<open>capped_concat\<close> of the filtered batches: the rows of the batches up to the first one
  after which there are at least 500 rows, in order.
\<close>

theorem fetch_refines_capped_concat:
  assumes "count (retr w) = Some c" and "webenv (retr w) = Some we" and "query_key (retr w) = Some qk"
    and "\<forall>s\<in>set (range_step 0 (min c STOP_AT_RECORD) batch_size).
           nucleotide_efetch svc we qk s batch_size = Inr (B s)"
  shows "fst (fetch_filtered_records svc min_len max_len w) =
         Inr (capped_concat result_cap
               (map (\<lambda>s. filter_rows min_len max_len (B s)) (range_step 0 (min c STOP_AT_RECORD) batch_size)))"
  using fetch_loop_capped_concat [OF assms(2,3,4)] assms(1)
  by (simp add: fetch_filtered_records_count)

theorem fetch_refines_capped_concat_witness:
  "count (retr (searched_world 700)) = Some 700 \<and> webenv (retr (searched_world 700)) = Some ''WE1'' \<and>
   query_key (retr (searched_world 700)) = Some ''1'' \<and>
   range_step 0 (min 700 STOP_AT_RECORD) batch_size = [0, 500] \<and>
   nucleotide_efetch demo_svc ''WE1'' ''1'' 0 batch_size = Inr [rec_short, rec_long] \<and>
   nucleotide_efetch demo_svc ''WE1'' ''1'' 500 batch_size = Inr [rec_short, rec_long] \<and>
   fst (fetch_filtered_records demo_svc 1 10 (searched_world 700)) =
     Inr (capped_concat result_cap
           (map (\<lambda>s. filter_rows 1 10 [rec_short, rec_long]) (range_step 0 (min 700 STOP_AT_RECORD) batch_size)))"
proof -
  have h: "\<forall>s\<in>set (range_step 0 (min 700 STOP_AT_RECORD) batch_size).
      nucleotide_efetch demo_svc ''WE1'' ''1'' s batch_size = Inr [rec_short, rec_long]"
    by (simp add: demo_svc_def batch_size_def)
  have r: "range_step 0 (min 700 STOP_AT_RECORD) batch_size = [0, 500]"
    by (simp add: STOP_AT_RECORD_def batch_size_def)
  show ?thesis
    using h r fetch_refines_capped_concat [of "searched_world 700" 700 "''WE1''" "''1''" demo_svc
        "\<lambda>s. [rec_short, rec_long]" 1 10]
    by (simp add: searched_world_def)
qed

text \<open>
  C3: every batch request the fetch sends asks for an offset in
  \<open>[0, min(count, STOP_AT_RECORD))\<close> that is a multiple of 500; the offsets are strictly
  increasing and there are at most ten of them.
\<close>

theorem fetch_requests_in_range:
  assumes "fetch_filtered_records svc min_len max_len w = (r, w')" and "count (retr w) = Some c"
  shows "\<exists>new. w' = w\<lparr>events := events w @ new\<rparr> \<and>
           sorted_wrt (<) (fetch_starts new) \<and> length (fetch_starts new) \<le> 10 \<and>
           (\<forall>s\<in>set (fetch_starts new). 0 \<le> s \<and> s < min c STOP_AT_RECORD \<and> 500 dvd s)"
proof -
  let ?ss = "range_step 0 (min c STOP_AT_RECORD) batch_size"
  obtain new where w': "w' = w\<lparr>events := events w @ new\<rparr>" and pre: "prefix (fetch_starts new) ?ss"
    using assms fetch_loop_frame by (metis fetch_filtered_records_count)
  have "sorted_wrt (<) (fetch_starts new)"
    using pre sorted_range_step by (metis prefix_def sorted_wrt_append)
  moreover have "length (fetch_starts new) \<le> length ?ss"
    using pre by (rule prefix_length_le)
  moreover have "length ?ss \<le> 10"
    by (simp add: length_range_step batch_size_def STOP_AT_RECORD_def nat_le_iff zdiv_mono1 [THEN order_trans])
  moreover have "\<forall>s\<in>set (fetch_starts new). 0 \<le> s \<and> s < min c STOP_AT_RECORD \<and> 500 dvd s"
    using set_mono_prefix [OF pre] by (auto simp: set_range_step batch_size_def)
  ultimately show ?thesis using w' by auto
qed

theorem fetch_requests_in_range_witness:
  "count (retr (searched_world 700)) = Some 700 \<and>
   (\<exists>new. snd (fetch_filtered_records demo_svc 1 10 (searched_world 700)) =
           (searched_world 700)\<lparr>events := events (searched_world 700) @ new\<rparr> \<and>
     sorted_wrt (<) (fetch_starts new) \<and> length (fetch_starts new) \<le> 10 \<and>
     (\<forall>s\<in>set (fetch_starts new). 0 \<le> s \<and> s < min 700 STOP_AT_RECORD \<and> 500 dvd s))"
  using fetch_requests_in_range [of demo_svc 1 10 "searched_world 700"
      "fst (fetch_filtered_records demo_svc 1 10 (searched_world 700))"
      "snd (fetch_filtered_records demo_svc 1 10 (searched_world 700))" 700]
  by (simp add: searched_world_def)

text \<open>
  C4: when the service never answers a batch request with more than \<open>retmax\<close> records,
  the fetch returns fewer than \<open>result_cap + batch_size\<close> (1000) rows: the cap is
  overshot by less than one batch.
\<close>

theorem fetch_length_bound:
  assumes "\<forall>we qk s n b. nucleotide_efetch svc we qk s n = Inr b \<longrightarrow> length b \<le> n"
    and "fetch_filtered_records svc min_len max_len w = (Inr rows, w')"
  shows "length rows < result_cap + batch_size"
  using assms(2)
proof (cases rule: fetch_filtered_records_searched)
  case (1 c)
  then show ?thesis
    by (intro fetch_loop_length [OF assms(1)]) (auto simp: result_cap_def)
qed simp

theorem fetch_length_bound_witness:
  "nucleotide_efetch demo_svc = (\<lambda>we qk s n. Inr (take n [rec_short, rec_long])) \<and>
   fst (fetch_filtered_records demo_svc 1 100 (searched_world 700)) =
     Inr [row_of rec_short, row_of rec_long, row_of rec_short, row_of rec_long] \<and>
   length [row_of rec_short, row_of rec_long, row_of rec_short, row_of rec_long] < result_cap + batch_size"
proof -
  have bounded: "\<forall>we qk s n b. nucleotide_efetch demo_svc we qk s n = Inr b \<longrightarrow> length b \<le> n"
    by (simp add: demo_svc_def)
  have run: "fst (fetch_filtered_records demo_svc 1 100 (searched_world 700)) =
     Inr [row_of rec_short, row_of rec_long, row_of rec_short, row_of rec_long]"
    by code_simp
  show ?thesis using run fetch_length_bound [OF bounded run_collapse [OF run]] by (simp add: demo_svc_def)
qed

text \<open>
  C5: the result can exceed 500 rows. The cap is tested only after a whole batch has been
  filtered, so a first batch of 499 matching records and a second of 500 give 999 rows.
\<close>

theorem fetch_exceeds_cap:
  "\<exists>rows. fst (fetch_filtered_records overflow_svc 0 1000 (searched_world 1000)) = Inr rows \<and>
          length rows = 999 \<and> result_cap < length rows"
proof -
  have starts: "range_step 0 (min 1000 STOP_AT_RECORD) batch_size = [0, 500]"
    by (simp add: STOP_AT_RECORD_def batch_size_def)
  have "fst (fetch_loop overflow_svc 0 1000 [0, 500] [] (searched_world 1000)) =
    Inr (capped_concat result_cap
          (map (\<lambda>s. filter_rows 0 1000 (replicate (if s = 0 then 499 else 500) rec100)) [0, 500::int]))"
    by (rule fetch_loop_capped_concat) (simp_all add: searched_world_def overflow_svc_def batch_size_def)
  moreover have "in_bounds 0 1000 rec100"
    by (simp add: in_bounds_def rec100_def)
  ultimately show ?thesis
    using starts
    by (simp add: fetch_filtered_records_count searched_world_def filter_rows_def result_cap_def
        capped_concat_def)
qed

section \<open>The search phase\<close>

lemma search_body_not_zero:
  "search_body svc taxid w = (Inr v, w') \<Longrightarrow> v \<noteq> Some 0"
  unfolding search_body_def
  by (auto simp: exc_simps model_defs set_retr_def
      split: prod.splits sum.splits option.splits list.splits if_splits)

lemma search_body_events:
  "search_body svc taxid w = (r, w') \<Longrightarrow> \<exists>new. events w' = events w @ new"
  unfolding search_body_def
  by (auto simp: exc_simps model_defs set_retr_def
      split: prod.splits sum.splits option.splits list.splits if_splits)

lemma search_taxid_state:
  assumes "search_taxid svc taxid w = (Inr v, w')" and "v \<noteq> Some 0"
  shows "(v = None \<and> retriever.count (retr w') = Some 0) \<or>
         (\<exists>c we qk. v = Some c \<and> retriever.count (retr w') = Some c \<and> webenv (retr w') = Some we \<and>
                    query_key (retr w') = Some qk)"
  using assms unfolding search_taxid_def search_body_def
  by (auto simp: exc_simps model_defs set_retr_def
      split: prod.splits sum.splits option.splits list.splits if_splits)

lemma search_taxid_returns: "\<exists>v w'. search_taxid svc taxid w = (Inr v, w')"
  by (auto simp: search_taxid_def exc_simps model_defs split: prod.splits sum.splits)

text \<open>
  C7: when the taxonomy lookup names the organism and the search reply carries a non-zero
  count, a session and a query key, \<open>search_taxid\<close> returns the count, records all four
  attributes, and sends the two requests and prints the three lines of the source, in order.
\<close>

theorem search_success:
  assumes "taxonomy_efetch svc taxid = Inr (d # ds)" and "d ''ScientificName'' = Some name"
    and "nucleotide_esearch svc (''txid'' @ taxid @ ''[Organism]'') = Inr res"
    and "res ''Count'' = Some cs" and "py_int cs = Inr c" and "c \<noteq> 0"
    and "res ''WebEnv'' = Some we" and "res ''QueryKey'' = Some qk"
  shows "search_taxid svc taxid w =
    (Inr (Some c),
     w\<lparr>events := events w @
        [Request (TaxonomyFetch taxid), Print (''Organism: '' @ name @ '' (TaxID: '' @ taxid @ '')''),
         Request (NucleotideSearch (''txid'' @ taxid @ ''[Organism]'')),
         Print (''Found '' @ py_str c @ '' records''), Print (''Found '' @ py_str c @ '' records.'')],
       retr := (retr w)\<lparr>organism_name := Some name, count := Some c, webenv := Some we,
                         query_key := Some qk\<rparr>\<rparr>)"
  using assms by (simp add: search_taxid_def search_body_def exc_simps model_defs set_retr_def)

theorem search_success_witness:
  "taxonomy_efetch demo_svc ''9606'' = Inr [Map.empty(''ScientificName'' \<mapsto> ''Homo sapiens'')] \<and>
   nucleotide_esearch demo_svc (''txid'' @ ''9606'' @ ''[Organism]'') =
     Inr (Map.empty(''Count'' \<mapsto> ''700'', ''WebEnv'' \<mapsto> ''WE1'', ''QueryKey'' \<mapsto> ''1'')) \<and>
   py_int ''700'' = Inr 700 \<and>
   search_taxid demo_svc ''9606'' fresh_world =
    (Inr (Some 700),
     fresh_world\<lparr>events := events fresh_world @
        [Request (TaxonomyFetch ''9606''), Print (''Organism: '' @ ''Homo sapiens'' @ '' (TaxID: '' @ ''9606'' @ '')''),
         Request (NucleotideSearch (''txid'' @ ''9606'' @ ''[Organism]'')),
         Print (''Found '' @ py_str 700 @ '' records''), Print (''Found '' @ py_str 700 @ '' records.'')],
       retr := (retr fresh_world)\<lparr>organism_name := Some ''Homo sapiens'', count := Some 700,
                                   webenv := Some ''WE1'', query_key := Some ''1''\<rparr>\<rparr>)"
proof -
  have c: "py_int ''700'' = Inr 700" by code_simp
  have tax: "taxonomy_efetch demo_svc ''9606'' = Inr [Map.empty(''ScientificName'' \<mapsto> ''Homo sapiens'')]"
    and es: "nucleotide_esearch demo_svc (''txid'' @ ''9606'' @ ''[Organism]'') =
     Inr (Map.empty(''Count'' \<mapsto> ''700'', ''WebEnv'' \<mapsto> ''WE1'', ''QueryKey'' \<mapsto> ''1''))"
    by (simp_all add: demo_svc_def)
  show ?thesis
    using tax es c search_success [OF tax _ es _ c, of "''Homo sapiens''" "''WE1''" "''1''" fresh_world]
    by simp
qed

text \<open>C8: \<open>search_taxid\<close> never raises: every exception of its body is caught.\<close>

theorem search_never_raises: "\<exists>v. fst (search_taxid svc taxid w) = Inr v"
  by (auto simp: search_taxid_def exc_simps model_defs split: prod.splits sum.splits)

text \<open>
  C9: when the search finds no records, \<open>search_taxid\<close> returns \<^verbatim>\<open>None\<close>, not \<open>0\<close>; it
  records the organism and the count, and leaves the session attributes as they were.
\<close>

theorem search_zero_count:
  assumes "taxonomy_efetch svc taxid = Inr (d # ds)" and "d ''ScientificName'' = Some name"
    and "nucleotide_esearch svc (''txid'' @ taxid @ ''[Organism]'') = Inr res"
    and "res ''Count'' = Some cs" and "py_int cs = Inr 0"
  shows "search_taxid svc taxid w =
    (Inr None,
     w\<lparr>events := events w @
        [Request (TaxonomyFetch taxid), Print (''Organism: '' @ name @ '' (TaxID: '' @ taxid @ '')''),
         Request (NucleotideSearch (''txid'' @ taxid @ ''[Organism]'')),
         Print (''No records found for '' @ name)],
       retr := (retr w)\<lparr>organism_name := Some name, count := Some 0\<rparr>\<rparr>)"
  using assms by (simp add: search_taxid_def search_body_def exc_simps model_defs set_retr_def)

theorem search_zero_count_witness:
  "taxonomy_efetch zero_svc ''9606'' = Inr [Map.empty(''ScientificName'' \<mapsto> ''Homo sapiens'')] \<and>
   nucleotide_esearch zero_svc (''txid'' @ ''9606'' @ ''[Organism]'') = Inr (Map.empty(''Count'' \<mapsto> ''0'')) \<and>
   py_int ''0'' = Inr 0 \<and>
   search_taxid zero_svc ''9606'' fresh_world =
    (Inr None,
     fresh_world\<lparr>events := events fresh_world @
        [Request (TaxonomyFetch ''9606''), Print (''Organism: '' @ ''Homo sapiens'' @ '' (TaxID: '' @ ''9606'' @ '')''),
         Request (NucleotideSearch (''txid'' @ ''9606'' @ ''[Organism]'')),
         Print (''No records found for '' @ ''Homo sapiens'')],
       retr := (retr fresh_world)\<lparr>organism_name := Some ''Homo sapiens'', count := Some 0\<rparr>\<rparr>)"
proof -
  have c: "py_int ''0'' = Inr 0" by code_simp
  have tax: "taxonomy_efetch zero_svc ''9606'' = Inr [Map.empty(''ScientificName'' \<mapsto> ''Homo sapiens'')]"
    and es: "nucleotide_esearch zero_svc (''txid'' @ ''9606'' @ ''[Organism]'') = Inr (Map.empty(''Count'' \<mapsto> ''0''))"
    by (simp_all add: zero_svc_def demo_svc_def)
  show ?thesis
    using tax es c search_zero_count [OF tax _ es _ c, of "''Homo sapiens''" fresh_world]
    by simp
qed

text \<open>
  C10: \<open>search_taxid\<close> returns \<open>0\<close> only when its body raised: the last line it printed is
  then the exception's message.
\<close>

theorem search_zero_means_error:
  assumes "search_taxid svc taxid w = (Inr (Some 0), w')"
  shows "\<exists>e new. events w' = events w @ new @ [Print (''Search error: '' @ err_str e)]"
proof (cases "search_body svc taxid w")
  case (Pair r w1)
  show ?thesis
  proof (cases r)
    case (Inl e)
    obtain new where "events w1 = events w @ new"
      using search_body_events Pair by blast
    with Pair Inl assms show ?thesis
      by (auto simp: search_taxid_def exc_simps model_defs)
  next
    case (Inr v)
    with Pair assms search_body_not_zero show ?thesis
      by (auto simp: search_taxid_def exc_simps)
  qed
qed

theorem search_zero_means_error_witness:
  "fst (search_taxid broken_svc ''9606'' fresh_world) = Inr (Some 0) \<and>
   (\<exists>e new. events (snd (search_taxid broken_svc ''9606'' fresh_world)) =
      events fresh_world @ new @ [Print (''Search error: '' @ err_str e)])"
proof -
  have run: "fst (search_taxid broken_svc ''9606'' fresh_world) = Inr (Some 0)"
    by code_simp
  show ?thesis using run search_zero_means_error [OF run_collapse [OF run]] by simp
qed

section \<open>Errors and pauses of the fetch\<close>

text \<open>
  C11: the fetch fails only with the failure of one of its batch requests, and then it
  returns no rows at all: the rows of the batches fetched before are lost.
\<close>

theorem fetch_error_from_batch:
  assumes "fetch_filtered_records svc min_len max_len w = (Inl e, w')"
    and "count (retr w) = Some c" and "webenv (retr w) = Some we" and "query_key (retr w) = Some qk"
  shows "\<exists>s\<in>set (range_step 0 (min c STOP_AT_RECORD) batch_size).
           nucleotide_efetch svc we qk s batch_size = Inl e"
  using assms by (intro fetch_loop_error [of svc min_len max_len _ "[]" w]) (auto simp: fetch_filtered_records_count)

theorem fetch_error_from_batch_witness:
  "fst (fetch_filtered_records failing_svc 1 10 (searched_world 700)) = Inl (ServiceError ''HTTP Error 500'') \<and>
   count (retr (searched_world 700)) = Some 700 \<and> webenv (retr (searched_world 700)) = Some ''WE1'' \<and>
   query_key (retr (searched_world 700)) = Some ''1'' \<and>
   (\<exists>s\<in>set (range_step 0 (min 700 STOP_AT_RECORD) batch_size).
      nucleotide_efetch failing_svc ''WE1'' ''1'' s batch_size = Inl (ServiceError ''HTTP Error 500''))"
proof -
  have run: "fst (fetch_filtered_records failing_svc 1 10 (searched_world 700)) = Inl (ServiceError ''HTTP Error 500'')"
    by code_simp
  have attrs: "count (retr (searched_world 700)) = Some 700" "webenv (retr (searched_world 700)) = Some ''WE1''"
    "query_key (retr (searched_world 700)) = Some ''1''"
    by (simp_all add: searched_world_def)
  show ?thesis using run attrs fetch_error_from_batch [OF run_collapse [OF run] attrs] by simp
qed

text \<open>
  C12: when the fetch ends with fewer than 500 rows it has requested every offset of the
  range, in order, and paused once after each batch, the last one included.
\<close>

theorem fetch_sleeps_after_every_batch:
  assumes "fetch_filtered_records svc min_len max_len w = (Inr rows, w')"
    and "count (retr w) = Some c" and "length rows < result_cap"
  shows "\<exists>new. w' = w\<lparr>events := events w @ new\<rparr> \<and>
           fetch_starts new = range_step 0 (min c STOP_AT_RECORD) batch_size \<and>
           sleeps new = length (fetch_starts new)"
  using assms fetch_loop_exhausts by (fastforce simp: fetch_filtered_records_count)

theorem fetch_sleeps_after_every_batch_witness:
  "fst (fetch_filtered_records demo_svc 1 10 (searched_world 700)) = Inr [row_of rec_short, row_of rec_short] \<and>
   count (retr (searched_world 700)) = Some 700 \<and>
   length [row_of rec_short, row_of rec_short] < result_cap \<and>
   (\<exists>new. snd (fetch_filtered_records demo_svc 1 10 (searched_world 700)) =
        (searched_world 700)\<lparr>events := events (searched_world 700) @ new\<rparr> \<and>
      fetch_starts new = range_step 0 (min 700 STOP_AT_RECORD) batch_size \<and>
      sleeps new = length (fetch_starts new))"
proof -
  have run: "fst (fetch_filtered_records demo_svc 1 10 (searched_world 700)) = Inr [row_of rec_short, row_of rec_short]"
    by code_simp
  have c: "count (retr (searched_world 700)) = Some 700"
    by (simp add: searched_world_def)
  have len: "length [row_of rec_short, row_of rec_short] < result_cap"
    by (simp add: result_cap_def)
  show ?thesis using run c len fetch_sleeps_after_every_batch [OF run_collapse [OF run] c len] by simp
qed

text \<open>C13: fetching before any search has assigned \<^verbatim>\<open>self.count\<close> raises \<open>AttributeError\<close>.\<close>

theorem fetch_before_search:
  "count (retr w) = None \<Longrightarrow>
   fetch_filtered_records svc min_len max_len w = (Inl (AttributeError ''count''), w)"
  by (simp add: fetch_filtered_records_def get_attr_def exc_simps)

theorem fetch_before_search_witness:
  "count (retr fresh_world) = None \<and>
   fetch_filtered_records demo_svc 1 10 fresh_world = (Inl (AttributeError ''count''), fresh_world)"
proof -
  have c: "count (retr fresh_world) = None" by (simp add: fresh_world_def)
  show ?thesis using c fetch_before_search [OF c] by simp
qed

text \<open>
  C14: with a count of zero or less the offset range is empty: the fetch sends no request,
  prints nothing and returns no rows, even though \<^verbatim>\<open>self.webenv\<close> may be unset.
\<close>

theorem fetch_nonpositive_count:
  "count (retr w) = Some c \<Longrightarrow> c \<le> 0 \<Longrightarrow> fetch_filtered_records svc min_len max_len w = (Inr [], w)"
  by (simp add: fetch_filtered_records_count exc_simps)

theorem fetch_nonpositive_count_witness:
  "count (retr (fresh_world\<lparr>retr := (retr fresh_world)\<lparr>count := Some 0\<rparr>\<rparr>)) = Some 0 \<and> (0::int) \<le> 0 \<and>
   fetch_filtered_records demo_svc 1 10 (fresh_world\<lparr>retr := (retr fresh_world)\<lparr>count := Some 0\<rparr>\<rparr>) =
     (Inr [], fresh_world\<lparr>retr := (retr fresh_world)\<lparr>count := Some 0\<rparr>\<rparr>)"
proof -
  have c: "count (retr (fresh_world\<lparr>retr := (retr fresh_world)\<lparr>count := Some 0\<rparr>\<rparr>)) = Some 0" by simp
  show ?thesis using c fetch_nonpositive_count [OF c] by simp
qed

section \<open>The spec's scenario\<close>

text \<open>
  C20: the spec's scenario (1200 records, batches of 500, bounds 300 to 800, every record
  500 bases long) fetches one batch, at offset 0, and returns its 500 rows: the first
  batch already reaches the cap, where the spec expects three batches.
\<close>

theorem fetch_spec_scenario:
  "fetch_filtered_records scenario_svc 300 800 (searched_world 1200) =
     (Inr (replicate 500 (row_of rec500)),
      (searched_world 1200)\<lparr>events := [Print (''Fetching in progress :'' @ py_str 0),
                                        Request (NucleotideFetch ''WE1'' ''1'' 0 500)]\<rparr>)"
proof -
  have starts: "range_step 0 (min 1200 STOP_AT_RECORD) batch_size = 0 # range_step 500 1200 500"
    by (simp add: STOP_AT_RECORD_def batch_size_def)
  have "in_bounds 300 800 rec500"
    by (simp add: in_bounds_def rec500_def)
  then show ?thesis
    using starts
    by (simp add: fetch_filtered_records_count fetch_loop_step filter_rows_def scenario_svc_def
        searched_world_def batch_size_def result_cap_def)
qed

end
