(* ===== verification/Export.thy ===== *)
theory Export
  imports Retriever "HOL-Library.Multiset"
begin

text \<open>
  The two exporters (src/2025py2_s27542/s27542_2025-2.py, lines 69 to 83).
  \<open>generate_csv\<close> writes the text \<^verbatim>\<open>pd.DataFrame(data).to_csv(filename, index=False)\<close>
  produces: a header line with the dictionary keys, then one line per row, no index column,
  fields separated by commas, lines ended by \<^verbatim>\<open>\n\<close>, and a field quoted (its quotes
  doubled) exactly when it holds a comma, a double quote, a line feed or a carriage return
  (the \<^verbatim>\<open>csv.QUOTE_MINIMAL\<close> rule pandas uses); the length column is \<^verbatim>\<open>str\<close> of the
  integer. A frame built from an empty list has no columns, and pandas then writes a single
  line break. \<open>generate_plot\<close> saves the figure \<open>plot_figure\<close>: the points it plots, in
  x order (the pairs (accession, length) of the rows sorted by length, longest first), and
  the settings of lines 76 to 82 (size, marker, tick rotation and font size, labels,
  title, tight layout); how matplotlib renders it is not modelled. pandas' default sort is not stable, so
  the order of rows of equal length is not determined by the source; the model keeps their
  input order (a stable sort), and the lemmas about the plot do not depend on that choice.
\<close>

section \<open>CSV text\<close>

definition dquote :: char where
  "dquote = CHR 0x22"

definition csv_special :: "char \<Rightarrow> bool" where
  "csv_special c \<longleftrightarrow> c = CHR '','' \<or> c = dquote \<or> c = CHR 0x0A \<or> c = CHR 0x0D"

definition csv_quote :: "string \<Rightarrow> string" where
  "csv_quote f =
     (if list_ex csv_special f
      then dquote # concat (map (\<lambda>c. if c = dquote then [dquote, dquote] else [c]) f) @ [dquote]
      else f)"

fun join_commas :: "string list \<Rightarrow> string" where
  "join_commas [] = []"
| "join_commas [f] = f"
| "join_commas (f # fs) = f @ CHR '','' # join_commas fs"

definition csv_line :: "string list \<Rightarrow> string" where
  "csv_line fs = join_commas (map csv_quote fs) @ [CHR 0x0A]"

definition csv_header :: "string list" where
  "csv_header = [''accession'', ''length'', ''description'']"

definition row_fields :: "row \<Rightarrow> string list" where
  "row_fields r = [accession r, py_str (int (seq_length r)), description r]"

definition csv_text :: "row list \<Rightarrow> string" where
  "csv_text data =
     (if data = [] then [CHR 0x0A]
      else csv_line csv_header @ concat (map (\<lambda>r. csv_line (row_fields r)) data))"

definition generate_csv :: "row list \<Rightarrow> string \<Rightarrow> ('a io_world_scheme, unit) exc" where
  "generate_csv data filename = emit (WriteCsv filename (csv_text data))"

section \<open>Plot\<close>

definition sort_by_length_desc :: "row list \<Rightarrow> row list" where
  "sort_by_length_desc data = sort_key (\<lambda>r. - int (seq_length r)) data"

definition plot_points :: "row list \<Rightarrow> (string \<times> nat) list" where
  "plot_points data = map (\<lambda>r. (accession r, seq_length r)) (sort_by_length_desc data)"

text \<open>The figure of lines 74 to 82: a 10 by 6 figure, the sorted points with marker \<^verbatim>\<open>o\<close>,
  x ticks rotated by 90 degrees in font size 6, the labels and title, a tight layout.\<close>

definition plot_figure :: "row list \<Rightarrow> figure" where
  "plot_figure data =
     \<lparr>fig_size = (10, 6), fig_points = plot_points data, fig_marker = ''o'',
      fig_xtick_rotation = 90, fig_xtick_fontsize = 6, fig_xlabel = ''Accession'',
      fig_ylabel = ''Sequence Length'', fig_title = ''Sequence Lengths (sorted)'', fig_tight = True\<rparr>"

definition generate_plot :: "row list \<Rightarrow> string \<Rightarrow> ('a io_world_scheme, unit) exc" where
  "generate_plot data filename = emit (SavePlot filename (plot_figure data))"

section \<open>Reading the CSV text back\<close>

text \<open>
  A reader for the text \<open>csv_text\<close> produces, written as the character-level state
  machine of RFC 4180 that \<^verbatim>\<open>csv.reader\<close> and \<^verbatim>\<open>pandas.read_csv\<close> implement: at the
  start of a field, inside an unquoted field, inside a quoted field, and just after a
  quote inside a quoted field (where a second quote is an escaped quote). It is not
  part of the program; it states what the written file means, so that the round trip
  below says the file holds exactly the header and the rows. The recursion is structural
  on the input, so the reader is total and executable.
\<close>

datatype csv_state = FieldStart | InPlain | InQuoted | QuoteSeen

fun csv_scan :: "csv_state \<Rightarrow> string \<Rightarrow> string list \<Rightarrow> string list list \<Rightarrow> string \<Rightarrow> string list list option" where
  "csv_scan FieldStart fld fs recs [] = (if fs = [] then Some recs else Some (recs @ [fs @ [fld]]))"
| "csv_scan InPlain fld fs recs [] = Some (recs @ [fs @ [fld]])"
| "csv_scan InQuoted fld fs recs [] = None"
| "csv_scan QuoteSeen fld fs recs [] = Some (recs @ [fs @ [fld]])"
| "csv_scan FieldStart fld fs recs (c # cs) =
     (if c = dquote then csv_scan InQuoted [] fs recs cs
      else if c = CHR '','' then csv_scan FieldStart [] (fs @ [[]]) recs cs
      else if c = CHR 0x0A then csv_scan FieldStart [] [] (recs @ [fs @ [[]]]) cs
      else csv_scan InPlain [c] fs recs cs)"
| "csv_scan InPlain fld fs recs (c # cs) =
     (if c = CHR '','' then csv_scan FieldStart [] (fs @ [fld]) recs cs
      else if c = CHR 0x0A then csv_scan FieldStart [] [] (recs @ [fs @ [fld]]) cs
      else csv_scan InPlain (fld @ [c]) fs recs cs)"
| "csv_scan InQuoted fld fs recs (c # cs) =
     (if c = dquote then csv_scan QuoteSeen fld fs recs cs else csv_scan InQuoted (fld @ [c]) fs recs cs)"
| "csv_scan QuoteSeen fld fs recs (c # cs) =
     (if c = dquote then csv_scan InQuoted (fld @ [dquote]) fs recs cs
      else if c = CHR '','' then csv_scan FieldStart [] (fs @ [fld]) recs cs
      else if c = CHR 0x0A then csv_scan FieldStart [] [] (recs @ [fs @ [fld]]) cs
      else None)"

definition read_csv :: "string \<Rightarrow> string list list option" where
  "read_csv s = csv_scan FieldStart [] [] [] s"

text \<open>What the reader does after a field \<open>fld\<close> ended by the separator \<open>sep\<close> (a comma or a line feed).\<close>

definition end_field :: "char \<Rightarrow> string \<Rightarrow> string list \<Rightarrow> string list list \<Rightarrow> string \<Rightarrow> string list list option" where
  "end_field sep fld fs recs rest =
     (if sep = CHR '','' then csv_scan FieldStart [] (fs @ [fld]) recs rest
      else csv_scan FieldStart [] [] (recs @ [fs @ [fld]]) rest)"

lemmas export_defs [model_defs] = generate_csv_def generate_plot_def

section \<open>Facts about the CSV text\<close>

lemma csv_scan_plain:
  "\<not> list_ex csv_special f \<Longrightarrow> csv_scan InPlain fld fs recs (f @ rest) = csv_scan InPlain (fld @ f) fs recs rest"
  by (induction f arbitrary: fld) (auto simp: csv_special_def)

lemma csv_scan_quoted:
  "csv_scan InQuoted fld fs recs (concat (map (\<lambda>c. if c = dquote then [dquote, dquote] else [c]) f) @ rest) =
   csv_scan InQuoted (fld @ f) fs recs rest"
  by (induction f arbitrary: fld) auto

lemma csv_scan_field:
  assumes sep: "sep = CHR '','' \<or> sep = CHR 0x0A"
  shows "csv_scan FieldStart [] fs recs (csv_quote f @ sep # rest) = end_field sep f fs recs rest"
proof (cases "list_ex csv_special f")
  case True
  have "sep \<noteq> dquote" using sep by (auto simp: dquote_def)
  with True sep show ?thesis
    using csv_scan_quoted [of "[]" fs recs f "dquote # sep # rest"]
    by (auto simp: csv_quote_def end_field_def)
next
  case False
  show ?thesis
  proof (cases f)
    case Nil
    with sep show ?thesis by (auto simp: csv_quote_def end_field_def dquote_def)
  next
    case (Cons c f')
    with False have c: "\<not> csv_special c" and f': "\<not> list_ex csv_special f'" by auto
    then have "c \<noteq> dquote" "c \<noteq> CHR '',''" "c \<noteq> CHR 0x0A" by (auto simp: csv_special_def)
    with Cons False sep show ?thesis
      using csv_scan_plain [OF f', of "[c]" fs recs "sep # rest"]
      by (auto simp: csv_quote_def end_field_def)
  qed
qed

lemma csv_scan_line:
  "fs \<noteq> [] \<Longrightarrow>
   csv_scan FieldStart [] acc recs (join_commas (map csv_quote fs) @ CHR 0x0A # rest) =
   csv_scan FieldStart [] [] (recs @ [acc @ fs]) rest"
proof (induction fs arbitrary: acc rule: join_commas.induct)
  case (2 f)
  then show ?case using csv_scan_field [of "CHR 0x0A" acc recs f rest] by (simp add: end_field_def)
next
  case (3 f g gs)
  have "csv_scan FieldStart [] acc recs (csv_quote f @ CHR '','' # (join_commas (map csv_quote (g # gs)) @ CHR 0x0A # rest)) =
        csv_scan FieldStart [] (acc @ [f]) recs (join_commas (map csv_quote (g # gs)) @ CHR 0x0A # rest)"
    using csv_scan_field [of "CHR '',''" acc recs f] by (simp add: end_field_def)
  with "3.IH" [of "acc @ [f]"] show ?case by simp
qed simp

lemma csv_scan_lines:
  "\<forall>fs\<in>set rows. fs \<noteq> [] \<Longrightarrow> csv_scan FieldStart [] [] recs (concat (map csv_line rows)) = Some (recs @ rows)"
proof (induction rows arbitrary: recs)
  case Nil
  then show ?case by simp
next
  case (Cons fs rows)
  have "concat (map csv_line (fs # rows)) =
        join_commas (map csv_quote fs) @ CHR 0x0A # concat (map csv_line rows)"
    by (simp add: csv_line_def)
  then show ?case
    using Cons.prems Cons.IH [of "recs @ [fs]"] csv_scan_line [of fs "[]" recs "concat (map csv_line rows)"]
    by simp
qed

text \<open>
  C21: the CSV file written for a non-empty list of rows reads back as the header line
  \<open>accession, length, description\<close> followed by one line per row, in order, with each
  field exactly as the row holds it: commas, quotes and line breaks in a description
  survive the quoting.
\<close>

theorem csv_roundtrip:
  assumes "data \<noteq> []"
  shows "read_csv (csv_text data) = Some (csv_header # map row_fields data)"
proof -
  have eq: "csv_text data = concat (map csv_line (csv_header # map row_fields data))"
    using assms by (simp add: csv_text_def comp_def)
  have "csv_scan FieldStart [] [] [] (concat (map csv_line (csv_header # map row_fields data))) =
        Some ([] @ csv_header # map row_fields data)"
    by (rule csv_scan_lines) (auto simp: csv_header_def row_fields_def)
  then show ?thesis by (simp add: read_csv_def eq del: concat.simps list.map)
qed

theorem csv_roundtrip_witness:
  "[\<lparr>accession = ''A1'', seq_length = 12, description = ''x, '' @ dquote # ''y''\<rparr>] \<noteq> [] \<and>
   read_csv (csv_text [\<lparr>accession = ''A1'', seq_length = 12, description = ''x, '' @ dquote # ''y''\<rparr>]) =
   Some [[''accession'', ''length'', ''description''], [''A1'', ''12'', ''x, '' @ dquote # ''y'']]"
proof -
  have "read_csv (csv_text [\<lparr>accession = ''A1'', seq_length = 12, description = ''x, '' @ dquote # ''y''\<rparr>]) =
        Some (csv_header # map row_fields [\<lparr>accession = ''A1'', seq_length = 12, description = ''x, '' @ dquote # ''y''\<rparr>])"
    by (rule csv_roundtrip) simp
  moreover have "py_str 12 = ''12''" by code_simp
  ultimately show ?thesis by (simp add: csv_header_def row_fields_def)
qed

section \<open>Facts about the plot\<close>

lemma plot_points_mset:
  "mset (plot_points data) = mset (map (\<lambda>r. (accession r, seq_length r)) data)"
  by (simp add: plot_points_def sort_by_length_desc_def)

lemma plot_points_desc: "sorted_wrt (\<ge>) (map snd (plot_points data))"
proof -
  have "sorted (map (\<lambda>r. - int (seq_length r)) (sort_by_length_desc data))"
    by (simp add: sort_by_length_desc_def)
  then have "sorted_wrt (\<ge>) (map (\<lambda>r. int (seq_length r)) (sort_by_length_desc data))"
    by (simp add: sorted_wrt_map)
  then show ?thesis
    by (simp add: plot_points_def sorted_wrt_map)
qed

text \<open>
  C19: the plotted points are the rows' (accession, length) pairs, each as often as in
  the rows (a permutation), ordered by length from longest to shortest.
\<close>

theorem plot_points_sorted_perm:
  "mset (plot_points data) = mset (map (\<lambda>r. (accession r, seq_length r)) data) \<and>
   sorted_wrt (\<ge>) (map snd (plot_points data))"
  using plot_points_mset plot_points_desc by blast

end
