(* ===== verification/Program.thy ===== *)
theory Program
  imports Export
begin

text \<open>
  The entry point \<^verbatim>\<open>main()\<close> (src/2025py2_s27542/s27542_2025-2.py, lines 85 to 108):
  five prompts read from standard input (\<open>read_inputs\<close>, lines 86 to 90; the two lengths
  go through \<^verbatim>\<open>int()\<close>, which may raise \<open>ValueError\<close>), then (\<open>run_retrieval\<close>,
  lines 92 to 105) the retriever created, the search, the test
  \<^verbatim>\<open>search_taxid(taxid) == 0\<close>, the fetch, the test \<^verbatim>\<open>not records\<close>, and the two
  exports to files named after the taxonomic ID. An exception that escapes \<open>main\<close> ends
  the program; the model returns it as \<open>Inl\<close> with the world as it was at the raise.
\<close>

definition read_inputs :: "(world, string \<times> string \<times> string \<times> int \<times> int) exc" where
  "read_inputs =
     ebind (py_input ''Enter your email address for NCBI: '') (\<lambda>email.
     ebind (py_input ''Enter your NCBI API key: '') (\<lambda>api_key.
     ebind (py_input ''Enter taxonomic ID (taxid) of the organism: '') (\<lambda>taxid.
     ebind (py_input ''Enter minimum sequence length: '') (\<lambda>s.
     ebind (of_sum (py_int s)) (\<lambda>min_len.
     ebind (py_input ''Enter maximum sequence length: '') (\<lambda>s.
     ebind (of_sum (py_int s)) (\<lambda>max_len.
     ret (email, api_key, taxid, min_len, max_len))))))))"

text \<open>What \<open>main\<close> does with the fetched rows (lines 98 to 105).\<close>

definition export_results :: "string \<Rightarrow> row list \<Rightarrow> (world, unit) exc" where
  "export_results taxid records =
     (if records = [] then py_print ''No sequences matched given restrictions''
      else
        let csv_file = taxid @ ''_filtered.csv''; plot_file = taxid @ ''_plot.png''
        in ebind (generate_csv records csv_file) (\<lambda>_. generate_plot records plot_file))"

definition run_retrieval :: "service \<Rightarrow> string \<Rightarrow> string \<Rightarrow> string \<Rightarrow> int \<Rightarrow> int \<Rightarrow> (world, unit) exc" where
  "run_retrieval svc email api_key taxid min_len max_len =
     ebind (init_retriever email api_key) (\<lambda>_.
     ebind (search_taxid svc taxid) (\<lambda>n.
     if n = Some 0 then py_print ''No records found''
     else ebind (fetch_filtered_records svc min_len max_len) (export_results taxid)))"

definition main :: "service \<Rightarrow> (world, unit) exc" where
  "main svc =
     ebind read_inputs (\<lambda>(email, api_key, taxid, min_len, max_len).
       run_retrieval svc email api_key taxid min_len max_len)"

text \<open>The five prompts \<open>main\<close> writes, in order, and the world a run of the program starts in.\<close>

definition main_prompts :: "event list" where
  "main_prompts = [Prompt ''Enter your email address for NCBI: '', Prompt ''Enter your NCBI API key: '',
     Prompt ''Enter taxonomic ID (taxid) of the organism: '', Prompt ''Enter minimum sequence length: '',
     Prompt ''Enter maximum sequence length: '']"

definition start_world :: "string list \<Rightarrow> world" where
  "start_world inputs = \<lparr>events = [], stdin = inputs,
     entrez = \<lparr>entrez_email = None, entrez_api_key = None, entrez_tool = None\<rparr>,
     retr = \<lparr>organism_name = None, count = None, webenv = None, query_key = None\<rparr>\<rparr>"

section \<open>Runs of the program\<close>

lemma py_input_Cons:
  "stdin w = l # ls \<Longrightarrow> py_input p w = (Inr l, w\<lparr>events := events w @ [Prompt p], stdin := ls\<rparr>)"
  by (simp add: py_input_def emit_def exc_simps)

lemmas main_run_defs = main_def read_inputs_def run_retrieval_def export_results_def main_prompts_def py_input_Cons init_retriever_def search_taxid_def
  search_body_def set_retr_def fetch_filtered_records_def get_attr_def STOP_AT_RECORD_def

text \<open>
  C6: when the search finds no records, \<^verbatim>\<open>search_taxid\<close> returns \<^verbatim>\<open>None\<close>, the test
  \<^verbatim>\<open>== 0\<close> fails, and \<open>main\<close> goes on to the fetch: it prints
  \<^verbatim>\<open>No sequences matched given restrictions\<close>, never \<^verbatim>\<open>No records found\<close>, and
  writes no file.
\<close>

theorem main_zero_count_still_fetches:
  assumes "stdin w = [email, key, taxid, smin, smax] @ rest"
    and "py_int smin = Inr min_len" and "py_int smax = Inr max_len"
    and "taxonomy_efetch svc taxid = Inr (d # ds)" and "d ''ScientificName'' = Some name"
    and "nucleotide_esearch svc (''txid'' @ taxid @ ''[Organism]'') = Inr res"
    and "res ''Count'' = Some cs" and "py_int cs = Inr 0"
  shows "fst (main svc w) = Inr () \<and>
    events (snd (main svc w)) = events w @ main_prompts @
      [Request (TaxonomyFetch taxid), Print (''Organism: '' @ name @ '' (TaxID: '' @ taxid @ '')''),
       Request (NucleotideSearch (''txid'' @ taxid @ ''[Organism]'')),
       Print (''No records found for '' @ name), Print ''No sequences matched given restrictions'']"
  using assms by (simp add: main_run_defs exc_simps model_defs)

theorem main_zero_count_still_fetches_witness:
  "py_int ''100'' = Inr 100 \<and> py_int ''200'' = Inr 200 \<and> py_int ''0'' = Inr 0 \<and>
   fst (main zero_svc (start_world [''me@example.org'', ''KEY'', ''9606'', ''100'', ''200''])) = Inr () \<and>
   events (snd (main zero_svc (start_world [''me@example.org'', ''KEY'', ''9606'', ''100'', ''200'']))) =
     events (start_world [''me@example.org'', ''KEY'', ''9606'', ''100'', ''200'']) @ main_prompts @
      [Request (TaxonomyFetch ''9606''), Print (''Organism: '' @ ''Homo sapiens'' @ '' (TaxID: '' @ ''9606'' @ '')''),
       Request (NucleotideSearch (''txid'' @ ''9606'' @ ''[Organism]'')),
       Print (''No records found for '' @ ''Homo sapiens''), Print ''No sequences matched given restrictions'']"
proof -
  have i: "py_int ''100'' = Inr 100" "py_int ''200'' = Inr 200" "py_int ''0'' = Inr 0"
    by code_simp+
  have s: "stdin (start_world [''me@example.org'', ''KEY'', ''9606'', ''100'', ''200'']) =
      [''me@example.org'', ''KEY'', ''9606'', ''100'', ''200''] @ []"
    and tax: "taxonomy_efetch zero_svc ''9606'' = Inr [Map.empty(''ScientificName'' \<mapsto> ''Homo sapiens'')]"
    and es: "nucleotide_esearch zero_svc (''txid'' @ ''9606'' @ ''[Organism]'') = Inr (Map.empty(''Count'' \<mapsto> ''0''))"
    by (simp_all add: start_world_def zero_svc_def demo_svc_def)
  show ?thesis
    using i main_zero_count_still_fetches [OF s i(1,2) tax _ es _ i(3)] by simp
qed

section \<open>Exceptions that escape main\<close>

lemma read_inputs_raises:
  "read_inputs w = (Inl e, w') \<Longrightarrow> e = EOFError \<or> (\<exists>s. e = ValueError s)"
  unfolding read_inputs_def
  by (auto simp: exc_simps model_defs py_int_def split: prod.splits sum.splits list.splits option.splits)

lemma run_retrieval_raises:
  assumes run: "run_retrieval svc email api_key taxid min_len max_len w = (Inl e, w')"
  shows "\<exists>we qk st n. nucleotide_efetch svc we qk st n = Inl e"
proof -
  obtain w1 where init: "init_retriever email api_key w = (Inr (), w1)"
    by (simp add: init_retriever_def exc_simps)
  obtain v w2 where search: "search_taxid svc taxid w1 = (Inr v, w2)"
    using search_taxid_returns by blast
  have v: "v \<noteq> Some 0"
    using run init search by (auto simp: run_retrieval_def exc_simps model_defs)
  obtain r w3 where fetch: "fetch_filtered_records svc min_len max_len w2 = (r, w3)"
    by (cases "fetch_filtered_records svc min_len max_len w2") blast
  have r: "r = Inl e"
    using run init search v fetch
    by (cases r) (auto simp: run_retrieval_def export_results_def exc_simps model_defs Let_def split: if_splits)
  from search_taxid_state [OF search v] show ?thesis
  proof
    assume "v = None \<and> retriever.count (retr w2) = Some 0"
    then have "fetch_filtered_records svc min_len max_len w2 = (Inr [], w2)"
      by (simp add: fetch_filtered_records_count exc_simps)
    with fetch r show ?thesis by simp
  next
    assume "\<exists>c we qk. v = Some c \<and> retriever.count (retr w2) = Some c \<and> webenv (retr w2) = Some we \<and>
                    query_key (retr w2) = Some qk"
    then obtain c we qk where "retriever.count (retr w2) = Some c" "webenv (retr w2) = Some we"
      "query_key (retr w2) = Some qk" by blast
    with fetch r show ?thesis
      by (fastforce simp: fetch_filtered_records_count dest: fetch_loop_error)
  qed
qed

text \<open>
  C15: the only exceptions that can escape \<open>main\<close> are \<open>EOFError\<close> and \<open>ValueError\<close>
  from reading the inputs and a failure of a batch request during the fetch: no
  \<open>AttributeError\<close>, \<open>KeyError\<close> or \<open>IndexError\<close>, because \<open>main\<close> reaches the fetch
  only after a search that set every attribute the fetch reads.
\<close>

theorem main_raises:
  assumes "main svc w = (Inl e, w')"
  shows "e = EOFError \<or> (\<exists>s. e = ValueError s) \<or> (\<exists>we qk st n. nucleotide_efetch svc we qk st n = Inl e)"
proof -
  obtain r w1 where inputs: "read_inputs w = (r, w1)"
    by (cases "read_inputs w") blast
  show ?thesis
  proof (cases r)
    case (Inl e')
    with inputs assms show ?thesis
      by (auto simp: main_def exc_simps dest: read_inputs_raises)
  next
    case (Inr a)
    obtain email api_key taxid min_len max_len where "a = (email, api_key, taxid, min_len, max_len)"
      by (cases a) auto
    with Inr inputs assms
    have "run_retrieval svc email api_key taxid min_len max_len w1 = (Inl e, w')"
      by (simp add: main_def exc_simps)
    then show ?thesis by (auto dest: run_retrieval_raises)
  qed
qed

theorem main_raises_witness:
  "main demo_svc (start_world [''me@example.org'']) = (Inl EOFError, snd (main demo_svc (start_world [''me@example.org'']))) \<and>
   (EOFError = EOFError \<or> (\<exists>s. EOFError = ValueError s) \<or>
     (\<exists>we qk st n. nucleotide_efetch demo_svc we qk st n = Inl EOFError))"
proof -
  have run: "fst (main demo_svc (start_world [''me@example.org''])) = Inl EOFError"
    by (simp add: main_def read_inputs_def start_world_def exc_simps model_defs)
  show ?thesis using main_raises [OF run_collapse [OF run]] run_collapse [OF run] by simp
qed

text \<open>
  C17: a minimum length that is no integer raises \<open>ValueError\<close> after four prompts, before
  the retriever is created and before any request.
\<close>

theorem main_bad_min_len:
  assumes "stdin w = [email, key, taxid, smin] @ rest" and "py_int smin = Inl e"
  shows "main svc w = (Inl e, w\<lparr>events := events w @ take 4 main_prompts, stdin := rest\<rparr>)"
  using assms by (simp add: main_run_defs exc_simps model_defs)

theorem main_bad_min_len_witness:
  "py_int ''ten'' = Inl (ValueError ''ten'') \<and>
   main demo_svc (start_world [''me@example.org'', ''KEY'', ''9606'', ''ten'']) =
     (Inl (ValueError ''ten''),
      (start_world [''me@example.org'', ''KEY'', ''9606'', ''ten''])\<lparr>events :=
         events (start_world [''me@example.org'', ''KEY'', ''9606'', ''ten'']) @ take 4 main_prompts,
         stdin := []\<rparr>)"
proof -
  have i: "py_int ''ten'' = Inl (ValueError ''ten'')" by code_simp
  have s: "stdin (start_world [''me@example.org'', ''KEY'', ''9606'', ''ten'']) =
      [''me@example.org'', ''KEY'', ''9606'', ''ten''] @ []"
    by (simp add: start_world_def)
  show ?thesis using i main_bad_min_len [OF s i, of demo_svc] by simp
qed

text \<open>
  C18: when the taxonomy lookup fails, \<open>main\<close> prints the search error and
  \<^verbatim>\<open>No records found\<close>, sends no other request and writes no file.
\<close>

theorem main_search_failure:
  assumes "stdin w = [email, key, taxid, smin, smax] @ rest"
    and "py_int smin = Inr min_len" and "py_int smax = Inr max_len"
    and "taxonomy_efetch svc taxid = Inl e"
  shows "fst (main svc w) = Inr () \<and>
    events (snd (main svc w)) = events w @ main_prompts @
      [Request (TaxonomyFetch taxid), Print (''Search error: '' @ err_str e), Print ''No records found'']"
  using assms by (simp add: main_run_defs exc_simps model_defs)

theorem main_search_failure_witness:
  "py_int ''1'' = Inr 1 \<and> py_int ''10'' = Inr 10 \<and>
   taxonomy_efetch broken_svc ''9606'' = Inl (ServiceError ''HTTP Error 400'') \<and>
   fst (main broken_svc (start_world [''me@example.org'', ''KEY'', ''9606'', ''1'', ''10''])) = Inr () \<and>
   events (snd (main broken_svc (start_world [''me@example.org'', ''KEY'', ''9606'', ''1'', ''10'']))) =
     events (start_world [''me@example.org'', ''KEY'', ''9606'', ''1'', ''10'']) @ main_prompts @
      [Request (TaxonomyFetch ''9606''), Print (''Search error: '' @ err_str (ServiceError ''HTTP Error 400'')),
       Print ''No records found'']"
proof -
  have i: "py_int ''1'' = Inr 1" "py_int ''10'' = Inr 10" by code_simp+
  have s: "stdin (start_world [''me@example.org'', ''KEY'', ''9606'', ''1'', ''10'']) =
      [''me@example.org'', ''KEY'', ''9606'', ''1'', ''10''] @ []"
    and t: "taxonomy_efetch broken_svc ''9606'' = Inl (ServiceError ''HTTP Error 400'')"
    by (simp_all add: start_world_def broken_svc_def)
  show ?thesis using i t main_search_failure [OF s i t] by simp
qed

section \<open>Runs past a successful search\<close>

text \<open>
  After five input lines of which the two lengths parse, and a search that answers with a
  non-zero count, a session and a query key, \<open>main\<close> is the fetch followed by
  \<open>export_results\<close>, from the world the search leaves.
\<close>

lemma main_searched:
  assumes "stdin w = [email, key, taxid, smin, smax] @ rest"
    and "py_int smin = Inr min_len" and "py_int smax = Inr max_len"
    and "taxonomy_efetch svc taxid = Inr (d # ds)" and "d ''ScientificName'' = Some name"
    and "nucleotide_esearch svc (''txid'' @ taxid @ ''[Organism]'') = Inr res"
    and "res ''Count'' = Some cs" and "py_int cs = Inr c" and "c \<noteq> 0"
    and "res ''WebEnv'' = Some we" and "res ''QueryKey'' = Some qk"
  shows "main svc w = ebind (fetch_filtered_records svc min_len max_len) (export_results taxid)
    (w\<lparr>stdin := rest,
       entrez := \<lparr>entrez_email = Some email, entrez_api_key = Some key, entrez_tool = Some ''BioScriptEx10''\<rparr>,
       retr := \<lparr>organism_name = Some name, count = Some c, webenv = Some we, query_key = Some qk\<rparr>,
       events := events w @ main_prompts @
        [Request (TaxonomyFetch taxid), Print (''Organism: '' @ name @ '' (TaxID: '' @ taxid @ '')''),
         Request (NucleotideSearch (''txid'' @ taxid @ ''[Organism]'')),
         Print (''Found '' @ py_str c @ '' records''), Print (''Found '' @ py_str c @ '' records.'')]\<rparr>)"
  using assms
  by (simp add: main_def read_inputs_def run_retrieval_def main_prompts_def py_input_Cons init_retriever_def
      search_taxid_def search_body_def set_retr_def exc_simps model_defs)

section \<open>A run that writes both files\<close>

text \<open>
  C16: when the search succeeds and the fetch yields at least one row, \<open>main\<close> ends by
  writing \<open>csv_text\<close> of the rows to \<open><taxid>_filtered.csv\<close> and then saving the plot
  of the rows to \<open><taxid>_plot.png\<close>; the rows are those of C2.
\<close>

theorem main_writes_files:
  assumes inputs: "stdin w = [email, key, taxid, smin, smax] @ rest"
    and "py_int smin = Inr min_len" and "py_int smax = Inr max_len"
    and "taxonomy_efetch svc taxid = Inr (d # ds)" and "d ''ScientificName'' = Some name"
    and "nucleotide_esearch svc (''txid'' @ taxid @ ''[Organism]'') = Inr res"
    and "res ''Count'' = Some cs" and "py_int cs = Inr c" and "c \<noteq> 0"
    and "res ''WebEnv'' = Some we" and "res ''QueryKey'' = Some qk"
    and batches: "\<forall>s\<in>set (range_step 0 (min c STOP_AT_RECORD) batch_size).
                    nucleotide_efetch svc we qk s batch_size = Inr (B s)"
    and rows: "rows = capped_concat result_cap
                 (map (\<lambda>s. filter_rows min_len max_len (B s)) (range_step 0 (min c STOP_AT_RECORD) batch_size))"
    and nonempty: "rows \<noteq> []"
  shows "fst (main svc w) = Inr () \<and>
    (\<exists>new. events (snd (main svc w)) = events w @ new @
       [WriteCsv (taxid @ ''_filtered.csv'') (csv_text rows), SavePlot (taxid @ ''_plot.png'') (plot_figure rows)])"
proof -
  define W2 where "W2 = w\<lparr>stdin := rest,
       entrez := \<lparr>entrez_email = Some email, entrez_api_key = Some key, entrez_tool = Some ''BioScriptEx10''\<rparr>,
       retr := \<lparr>organism_name = Some name, count = Some c, webenv = Some we, query_key = Some qk\<rparr>,
       events := events w @ main_prompts @
        [Request (TaxonomyFetch taxid), Print (''Organism: '' @ name @ '' (TaxID: '' @ taxid @ '')''),
         Request (NucleotideSearch (''txid'' @ taxid @ ''[Organism]'')),
         Print (''Found '' @ py_str c @ '' records''), Print (''Found '' @ py_str c @ '' records.'')]\<rparr>"
  have main_eq: "main svc w = ebind (fetch_filtered_records svc min_len max_len) (export_results taxid) W2"
    unfolding W2_def using assms(1-11) by (rule main_searched)
  let ?ss = "range_step 0 (min c STOP_AT_RECORD) batch_size"
  obtain r W3 where run: "fetch_loop svc min_len max_len ?ss [] W2 = (r, W3)"
    by (cases "fetch_loop svc min_len max_len ?ss [] W2") blast
  have "fst (fetch_loop svc min_len max_len ?ss [] W2) = Inr rows"
    unfolding rows using batches by (intro fetch_loop_capped_concat) (simp_all add: W2_def)
  with run have r: "r = Inr rows" by simp
  obtain new where W3: "W3 = W2\<lparr>events := events W2 @ new\<rparr>"
    using fetch_loop_frame [OF run] by blast
  have "fetch_filtered_records svc min_len max_len W2 = (Inr rows, W3)"
    using run r by (simp add: fetch_filtered_records_count W2_def)
  then have "main svc w = (Inr (), W3\<lparr>events := events W3 @
       [WriteCsv (taxid @ ''_filtered.csv'') (csv_text rows), SavePlot (taxid @ ''_plot.png'') (plot_figure rows)]\<rparr>)"
    using nonempty by (simp add: main_eq export_results_def exc_simps model_defs)
  then show ?thesis
    using W3 by (auto simp: W2_def)
qed
theorem main_writes_files_witness:
  "py_int ''1'' = Inr 1 \<and> py_int ''10'' = Inr 10 \<and> py_int ''700'' = Inr 700 \<and>
   range_step 0 (min 700 STOP_AT_RECORD) batch_size = [0, 500] \<and>
   nucleotide_efetch demo_svc ''WE1'' ''1'' 0 batch_size = Inr [rec_short, rec_long] \<and>
   nucleotide_efetch demo_svc ''WE1'' ''1'' 500 batch_size = Inr [rec_short, rec_long] \<and>
   capped_concat result_cap (map (\<lambda>s. filter_rows 1 10 [rec_short, rec_long]) [0, 500::int]) =
     [row_of rec_short, row_of rec_short] \<and>
   fst (main demo_svc (start_world [''me@example.org'', ''KEY'', ''9606'', ''1'', ''10''])) = Inr () \<and>
   (\<exists>new. events (snd (main demo_svc (start_world [''me@example.org'', ''KEY'', ''9606'', ''1'', ''10'']))) =
      events (start_world [''me@example.org'', ''KEY'', ''9606'', ''1'', ''10'']) @ new @
       [WriteCsv (''9606'' @ ''_filtered.csv'') (csv_text [row_of rec_short, row_of rec_short]),
        SavePlot (''9606'' @ ''_plot.png'') (plot_figure [row_of rec_short, row_of rec_short])])"
proof -
  have i: "py_int ''1'' = Inr 1" "py_int ''10'' = Inr 10" "py_int ''700'' = Inr 700" by code_simp+
  have r: "range_step 0 (min 700 STOP_AT_RECORD) batch_size = [0, 500]"
    by (simp add: STOP_AT_RECORD_def batch_size_def)
  have b: "nucleotide_efetch demo_svc ''WE1'' ''1'' 0 batch_size = Inr [rec_short, rec_long]"
    "nucleotide_efetch demo_svc ''WE1'' ''1'' 500 batch_size = Inr [rec_short, rec_long]"
    by (simp_all add: demo_svc_def batch_size_def)
  have rows: "capped_concat result_cap (map (\<lambda>s. filter_rows 1 10 [rec_short, rec_long]) [0, 500::int]) =
     [row_of rec_short, row_of rec_short]"
    by (simp add: capped_concat_def filter_rows_def in_bounds_def rec_short_def rec_long_def result_cap_def)
  have s: "stdin (start_world [''me@example.org'', ''KEY'', ''9606'', ''1'', ''10'']) =
      [''me@example.org'', ''KEY'', ''9606'', ''1'', ''10''] @ []"
    and t: "taxonomy_efetch demo_svc ''9606'' = Inr [Map.empty(''ScientificName'' \<mapsto> ''Homo sapiens'')]"
    and e: "nucleotide_esearch demo_svc (''txid'' @ ''9606'' @ ''[Organism]'') =
      Inr (Map.empty(''Count'' \<mapsto> ''700'', ''WebEnv'' \<mapsto> ''WE1'', ''QueryKey'' \<mapsto> ''1''))"
    by (simp_all add: start_world_def demo_svc_def)
  have all: "\<forall>s\<in>set (range_step 0 (min 700 STOP_AT_RECORD) batch_size).
      nucleotide_efetch demo_svc ''WE1'' ''1'' s batch_size = Inr [rec_short, rec_long]"
    using r b by simp
  show ?thesis
    using i r b rows main_writes_files [OF s i(1,2) t _ e _ i(3) _ _ _ all, of "''Homo sapiens''"
        "[row_of rec_short, row_of rec_short]"]
    by (simp add: r)
qed

end
