(* ===== verification/Traffic.thy ===== *)
theory Traffic
  imports Program
begin

text \<open>
  The traffic one run of the program sends to NCBI: how many requests, how many of them
  batch requests, and how many pauses, counted on the events of a run of \<open>main\<close>
  (src/2025py2_s27542/s27542_2025-2.py, lines 85 to 105). \<open>appends_within a b c m\<close>
  says that every run of the statement \<open>m\<close> only appends events, among them at most
  \<open>a\<close> requests, \<open>b\<close> batch requests and \<open>c\<close> pauses; the bounds add up along
  \<open>ebind\<close>, so the bound of \<open>main\<close> is assembled from those of its parts.
\<close>

fun requests :: "event list \<Rightarrow> nat" where
  "requests [] = 0"
| "requests (Request q # es) = Suc (requests es)"
| "requests (_ # es) = requests es"

definition appends_within :: "nat \<Rightarrow> nat \<Rightarrow> nat \<Rightarrow> (world, 'a) exc \<Rightarrow> bool" where
  "appends_within a b c m \<longleftrightarrow>
     (\<forall>w. \<exists>new. events (snd (m w)) = events w @ new \<and>
        requests new \<le> a \<and> length (fetch_starts new) \<le> b \<and> sleeps new \<le> c)"

text \<open>
  The number of batches the fetch needs, stated without its loop: \<open>batches_until cap n bss\<close>
  is the number of batches of \<open>bss\<close> up to and including the first after which the rows,
  \<open>n\<close> of them before, reach \<open>cap\<close>; all of them when that never happens.
\<close>

fun batches_until :: "nat \<Rightarrow> nat \<Rightarrow> 'a list list \<Rightarrow> nat" where
  "batches_until cap n [] = 0"
| "batches_until cap n (b # bs) =
     (if cap \<le> n + length b then 1 else Suc (batches_until cap (n + length b) bs))"

text \<open>
  \<open>announced prev es\<close>: in \<open>es\<close>, preceded by the event \<open>prev\<close>, every batch request
  for offset \<open>s\<close> comes right after the line \<^verbatim>\<open>Fetching in progress :s\<close>.
\<close>

fun announced :: "event option \<Rightarrow> event list \<Rightarrow> bool" where
  "announced prev [] = True"
| "announced prev (e # es) =
     ((case e of
         Request (NucleotideFetch we qk s n) \<Rightarrow> prev = Some (Print (''Fetching in progress :'' @ py_str s))
       | _ \<Rightarrow> True) \<and>
      announced (Some e) es)"

text \<open>A database that reports 6000 records and answers every batch request.\<close>

definition large_svc :: service where
  "large_svc = demo_svc\<lparr>nucleotide_esearch :=
       (\<lambda>t. Inr (Map.empty(''Count'' \<mapsto> ''6000'', ''WebEnv'' \<mapsto> ''WE1'', ''QueryKey'' \<mapsto> ''1'')))\<rparr>"

section \<open>Composition\<close>

lemma requests_append [simp]: "requests (xs @ ys) = requests xs + requests ys"
  by (induction xs rule: requests.induct) auto

lemma appends_withinI:
  "(\<And>w. \<exists>new. events (snd (m w)) = events w @ new \<and>
      requests new \<le> a \<and> length (fetch_starts new) \<le> b \<and> sleeps new \<le> c) \<Longrightarrow>
   appends_within a b c m"
  by (simp add: appends_within_def)

lemma appends_within_mono:
  "appends_within a b c m \<Longrightarrow> a \<le> a' \<Longrightarrow> b \<le> b' \<Longrightarrow> c \<le> c' \<Longrightarrow> appends_within a' b' c' m"
  unfolding appends_within_def by (meson order_trans)

lemma appends_within_ebind:
  assumes m: "appends_within a1 b1 c1 m" and f: "\<And>x. appends_within a2 b2 c2 (f x)"
  shows "appends_within (a1 + a2) (b1 + b2) (c1 + c2) (ebind m f)"
proof (rule appends_withinI)
  fix w
  obtain n1 where n1: "events (snd (m w)) = events w @ n1" "requests n1 \<le> a1"
    "length (fetch_starts n1) \<le> b1" "sleeps n1 \<le> c1"
    using m by (auto simp: appends_within_def)
  show "\<exists>new. events (snd (ebind m f w)) = events w @ new \<and> requests new \<le> a1 + a2 \<and>
          length (fetch_starts new) \<le> b1 + b2 \<and> sleeps new \<le> c1 + c2"
  proof (cases "m w")
    case (Pair r w')
    show ?thesis
    proof (cases r)
      case (Inl e)
      with Pair n1 show ?thesis by (auto simp: exc_simps)
    next
      case (Inr x)
      obtain n2 where n2: "events (snd (f x w')) = events w' @ n2" "requests n2 \<le> a2"
        "length (fetch_starts n2) \<le> b2" "sleeps n2 \<le> c2"
        using f by (auto simp: appends_within_def)
      with Pair Inr n1 show ?thesis
        by (intro exI [of _ "n1 @ n2"]) (auto simp: exc_simps)
    qed
  qed
qed

lemma appends_within_ebind_quiet:
  "appends_within 0 0 0 m \<Longrightarrow> (\<And>x. appends_within a b c (f x)) \<Longrightarrow> appends_within a b c (ebind m f)"
  using appends_within_ebind [of 0 0 0 m a b c f] by simp

lemma appends_within_if:
  "appends_within a b c m1 \<Longrightarrow> appends_within a b c m2 \<Longrightarrow> appends_within a b c (if P then m1 else m2)"
  by simp

lemma appends_within_ret: "appends_within 0 0 0 (ret x)"
  by (simp add: appends_within_def exc_simps)

lemma appends_within_of_sum: "appends_within 0 0 0 (of_sum r)"
  by (simp add: appends_within_def exc_simps)

lemma appends_within_print: "appends_within 0 0 0 (py_print s)"
  by (simp add: appends_within_def model_defs exc_simps)

lemma appends_within_input: "appends_within 0 0 0 (py_input p)"
  by (auto simp: appends_within_def py_input_def emit_def exc_simps split: list.splits)

lemma appends_within_init: "appends_within 0 0 0 (init_retriever e k)"
  by (simp add: appends_within_def init_retriever_def exc_simps)

lemma appends_within_exports:
  "appends_within 0 0 0 (generate_csv rows f)" "appends_within 0 0 0 (generate_plot rows f)"
  by (simp_all add: appends_within_def model_defs exc_simps)

lemmas appends_within_quiet =
  appends_within_ret appends_within_of_sum appends_within_print appends_within_input
  appends_within_init appends_within_exports

section \<open>The parts of a run\<close>

lemma read_inputs_traffic: "appends_within 0 0 0 read_inputs"
  unfolding read_inputs_def
  by (intro appends_within_ebind_quiet appends_within_quiet)

lemma search_taxid_traffic: "appends_within 2 0 0 (search_taxid svc taxid)"
  unfolding appends_within_def search_taxid_def search_body_def
  by (auto simp: exc_simps model_defs set_retr_def
      split: prod.splits sum.splits option.splits list.splits if_splits)

lemma fetch_loop_traffic:
  "fetch_loop svc mn mx ss acc w = (r, w') \<Longrightarrow>
   \<exists>new. events w' = events w @ new \<and> requests new = length (fetch_starts new) \<and>
     sleeps new \<le> length (fetch_starts new) \<and> prefix (fetch_starts new) ss"
proof (induction ss arbitrary: acc w)
  case Nil
  then show ?case by (auto simp: exc_simps)
next
  case (Cons s ss)
  from Cons.prems show ?case
  proof (cases rule: fetch_loop_ConsE)
    case (continue we qk b)
    then obtain new where "events w' = events w @ [Print (''Fetching in progress :'' @ py_str s),
        Request (NucleotideFetch we qk s batch_size), Sleep] @ new"
      and "requests new = length (fetch_starts new)" and "sleeps new \<le> length (fetch_starts new)"
      and "prefix (fetch_starts new) ss"
      using Cons.IH by fastforce
    then show ?thesis
      by (intro exI [of _ "[Print (''Fetching in progress :'' @ py_str s),
          Request (NucleotideFetch we qk s batch_size), Sleep] @ new"]) auto
  qed auto
qed

lemma batches_until_pos:
  "n < cap \<Longrightarrow> cap \<le> n + length (concat bss) \<Longrightarrow> 0 < batches_until cap n bss"
  by (induction bss arbitrary: n) auto

lemma fetch_loop_trace:
  assumes we: "webenv (retr w) = Some we" and qk: "query_key (retr w) = Some qk"
    and answers: "\<forall>s\<in>set ss. nucleotide_efetch svc we qk s batch_size = Inr (B s)"
    and below: "length acc < result_cap"
  shows "\<exists>new. snd (fetch_loop svc mn mx ss acc w) = w\<lparr>events := events w @ new\<rparr> \<and>
    fetch_starts new = take (batches_until result_cap (length acc) (map (\<lambda>s. filter_rows mn mx (B s)) ss)) ss \<and>
    sleeps new = length (fetch_starts new) -
      (if result_cap \<le> length acc + length (concat (map (\<lambda>s. filter_rows mn mx (B s)) ss)) then 1 else 0)"
  using we qk answers below
proof (induction ss arbitrary: acc w)
  case Nil
  then show ?case by (auto simp: exc_simps intro: exI [of _ "[]"])
next
  case (Cons s ss)
  let ?F = "\<lambda>s. filter_rows mn mx (B s)"
  let ?acc' = "acc @ ?F s"
  show ?case
  proof (cases "result_cap \<le> length ?acc'")
    case True
    then show ?thesis using Cons.prems
      by (intro exI [of _ "[Print (''Fetching in progress :'' @ py_str s), Request (NucleotideFetch we qk s batch_size)]"])
         (simp add: fetch_loop_step)
  next
    case False
    let ?w1 = "w\<lparr>events := events w @ [Print (''Fetching in progress :'' @ py_str s),
                                        Request (NucleotideFetch we qk s batch_size), Sleep]\<rparr>"
    obtain new where new: "snd (fetch_loop svc mn mx ss ?acc' ?w1) = ?w1\<lparr>events := events ?w1 @ new\<rparr>"
      and starts: "fetch_starts new = take (batches_until result_cap (length ?acc') (map ?F ss)) ss"
      and sl: "sleeps new = length (fetch_starts new) -
        (if result_cap \<le> length ?acc' + length (concat (map ?F ss)) then 1 else 0)"
      using Cons.IH [of ?w1 ?acc'] Cons.prems False by auto
    have pos: "0 < length (fetch_starts new)"
      if "result_cap \<le> length ?acc' + length (concat (map ?F ss))"
    proof -
      have "0 < batches_until result_cap (length ?acc') (map ?F ss)"
        using that False by (intro batches_until_pos) auto
      moreover have "ss \<noteq> []" using that False by auto
      ultimately show ?thesis using starts by simp
    qed
    have "snd (fetch_loop svc mn mx (s # ss) acc w) = snd (fetch_loop svc mn mx ss ?acc' ?w1)"
      using False Cons.prems by (simp add: fetch_loop_step)
    then show ?thesis
      using new starts sl pos False
      by (intro exI [of _ "[Print (''Fetching in progress :'' @ py_str s),
                            Request (NucleotideFetch we qk s batch_size), Sleep] @ new"])
         (auto simp: add.assoc)
  qed
qed

lemma filter_rows_inverted: "mx < mn \<Longrightarrow> filter_rows mn mx b = []"
  by (auto simp: filter_rows_def in_bounds_def filter_empty_conv)

lemma concat_map_Nil: "concat (map (\<lambda>_. []) xs) = []"
  by (induction xs) auto

lemma batches_until_empty: "n < cap \<Longrightarrow> batches_until cap n (map (\<lambda>_. []) xs) = length xs"
  by (induction xs) auto

lemma fetch_loop_announced:
  "fetch_loop svc mn mx ss acc w = (r, w') \<Longrightarrow>
   \<exists>new. events w' = events w @ new \<and> (\<forall>p. announced p new)"
proof (induction ss arbitrary: acc w)
  case Nil
  then show ?case by (auto simp: exc_simps)
next
  case (Cons s ss)
  from Cons.prems show ?case
  proof (cases rule: fetch_loop_ConsE)
    case (continue we qk b)
    then obtain new where "events w' = events w @ [Print (''Fetching in progress :'' @ py_str s),
        Request (NucleotideFetch we qk s batch_size), Sleep] @ new" and "\<forall>p. announced p new"
      using Cons.IH by fastforce
    then show ?thesis
      by (intro exI [of _ "[Print (''Fetching in progress :'' @ py_str s),
          Request (NucleotideFetch we qk s batch_size), Sleep] @ new"]) auto
  qed auto
qed

lemma length_fetch_range: "length (range_step 0 (min c STOP_AT_RECORD) batch_size) \<le> 10"
  by (simp add: length_range_step batch_size_def STOP_AT_RECORD_def nat_le_iff zdiv_mono1 [THEN order_trans])

lemma fetch_traffic: "appends_within 10 10 10 (fetch_filtered_records svc mn mx)"
proof (rule appends_withinI)
  fix w
  obtain r w' where run: "fetch_filtered_records svc mn mx w = (r, w')" by fastforce
  then show "\<exists>new. events (snd (fetch_filtered_records svc mn mx w)) = events w @ new \<and>
      requests new \<le> 10 \<and> length (fetch_starts new) \<le> 10 \<and> sleeps new \<le> 10"
  proof (cases rule: fetch_filtered_records_searched)
    case (1 c)
    then obtain new where "events w' = events w @ new" "requests new = length (fetch_starts new)"
      "sleeps new \<le> length (fetch_starts new)"
      "prefix (fetch_starts new) (range_step 0 (min c STOP_AT_RECORD) batch_size)"
      using fetch_loop_traffic by blast
    moreover have "length (fetch_starts new) \<le> 10"
      using prefix_length_le [OF calculation(4)] length_fetch_range [of c] by linarith
    ultimately show ?thesis using run by auto
  qed (simp add: run)
qed

lemma run_retrieval_traffic: "appends_within 12 10 10 (run_retrieval svc email key taxid mn mx)"
proof -
  have exports: "appends_within 0 0 0 (export_results taxid records)" for records
    by (simp add: export_results_def Let_def appends_within_quiet appends_within_ebind_quiet)
  have after_search: "appends_within 10 10 10
      (if n = Some 0 then py_print ''No records found''
       else ebind (fetch_filtered_records svc mn mx) (export_results taxid))" for n
    using appends_within_ebind [OF fetch_traffic exports] appends_within_mono [OF appends_within_print]
    by simp
  have "appends_within (2 + 10) (0 + 10) (0 + 10)
          (ebind (search_taxid svc taxid) (\<lambda>n.
             if n = Some 0 then py_print ''No records found''
             else ebind (fetch_filtered_records svc mn mx) (export_results taxid)))"
    by (rule appends_within_ebind [OF search_taxid_traffic after_search])
  then show ?thesis
    unfolding run_retrieval_def
    by (intro appends_within_ebind_quiet [OF appends_within_init]) simp
qed

lemma main_traffic: "appends_within 12 10 10 (main svc)"
  unfolding main_def
proof (rule appends_within_ebind_quiet [OF read_inputs_traffic])
  fix x :: "string \<times> string \<times> string \<times> int \<times> int"
  show "appends_within 12 10 10
     ((\<lambda>(email, api_key, taxid, min_len, max_len). run_retrieval svc email api_key taxid min_len max_len) x)"
    by (cases x) (simp add: run_retrieval_traffic)
qed

text \<open>
  C26: one run of the program, whatever the input, the database's answers and the
  exceptions, sends at most 12 requests to NCBI (the taxonomy lookup, the search and at
  most ten batch requests) and pauses at most ten times; it only appends to what was
  observed before.
\<close>

theorem main_traffic_bounded:
  "\<exists>new. events (snd (main svc w)) = events w @ new \<and>
     requests new \<le> 12 \<and> length (fetch_starts new) \<le> 10 \<and> sleeps new \<le> 10"
  using main_traffic [of svc] by (simp add: appends_within_def)

text \<open>
  C30: whatever the database answers, in the events of a fetch every batch request for an
  offset \<open>s\<close> is immediately preceded by the progress line
  \<^verbatim>\<open>Fetching in progress :s\<close>, also when the request then fails or breaks the loop.
\<close>

theorem fetch_requests_announced:
  "\<exists>new. events (snd (fetch_filtered_records svc mn mx w)) = events w @ new \<and> announced None new"
proof (cases "fetch_filtered_records svc mn mx w")
  case (Pair r w')
  then show ?thesis
  proof (cases rule: fetch_filtered_records_searched)
    case (1 c)
    then show ?thesis using Pair fetch_loop_announced by fastforce
  qed (use Pair in \<open>auto intro: exI [of _ "[]"]\<close>)
qed

text \<open>
  C28: when the search has set the session and the database answers every batch request,
  the fetch requests exactly the first \<open>batches_until 500 0 rows_per_batch\<close> offsets of
  the range, in order, and pauses once after each of them except the last when the rows
  reached 500: the number of requests and pauses is determined by the rows each batch
  contributes.
\<close>

theorem fetch_exact_traffic:
  assumes "retriever.count (retr w) = Some c" and "webenv (retr w) = Some we" and "query_key (retr w) = Some qk"
    and "\<forall>s\<in>set (range_step 0 (min c STOP_AT_RECORD) batch_size).
           nucleotide_efetch svc we qk s batch_size = Inr (B s)"
  shows "\<exists>new. snd (fetch_filtered_records svc mn mx w) = w\<lparr>events := events w @ new\<rparr> \<and>
    fetch_starts new = take (batches_until result_cap 0
        (map (\<lambda>s. filter_rows mn mx (B s)) (range_step 0 (min c STOP_AT_RECORD) batch_size)))
      (range_step 0 (min c STOP_AT_RECORD) batch_size) \<and>
    sleeps new = length (fetch_starts new) -
      (if result_cap \<le> length (concat (map (\<lambda>s. filter_rows mn mx (B s))
                                     (range_step 0 (min c STOP_AT_RECORD) batch_size)))
       then 1 else 0)"
  using fetch_loop_trace [OF assms(2-4), of "[]" mn mx] assms(1)
  by (simp add: fetch_filtered_records_count result_cap_def)

theorem fetch_exact_traffic_witness:
  "\<exists>new. snd (fetch_filtered_records overflow_svc 1 1000 (searched_world 1000)) =
          (searched_world 1000)\<lparr>events := events (searched_world 1000) @ new\<rparr> \<and>
        fetch_starts new = [0, 500] \<and> sleeps new = 1"
proof -
  have r: "range_step 0 (min 1000 STOP_AT_RECORD) batch_size = [0, 500]"
    by (simp add: STOP_AT_RECORD_def batch_size_def)
  have answers: "\<forall>s\<in>set (range_step 0 (min 1000 STOP_AT_RECORD) batch_size).
      nucleotide_efetch overflow_svc ''WE1'' ''1'' s batch_size =
        Inr (replicate (if s = 0 then 499 else 500) rec100)"
    by (simp add: r overflow_svc_def)
  have f: "filter_rows 1 1000 (replicate n rec100) = replicate n (row_of rec100)" for n
    by (simp add: filter_rows_def in_bounds_def rec100_def)
  have a: "retriever.count (retr (searched_world 1000)) = Some 1000"
    "webenv (retr (searched_world 1000)) = Some ''WE1''" "query_key (retr (searched_world 1000)) = Some ''1''"
    by (simp_all add: searched_world_def)
  obtain new where "snd (fetch_filtered_records overflow_svc 1 1000 (searched_world 1000)) =
      (searched_world 1000)\<lparr>events := events (searched_world 1000) @ new\<rparr>"
    and "fetch_starts new = [0, 500]" and "sleeps new = length (fetch_starts new) - 1"
    using fetch_exact_traffic [OF a answers, of 1 1000] by (auto simp: r f result_cap_def)
  then show ?thesis by auto
qed

text \<open>
  C29: with bounds that admit no length (\<open>max_len < min_len\<close>, a boundary input the
  program does not reject), a run whose search succeeds and whose batch requests are all
  answered requests every offset of the range, pauses after each batch, and ends by printing
  \<^verbatim>\<open>No sequences matched given restrictions\<close>; every request of the fetch is a batch
  request. With a count of 5000 or more this run reaches the bound of C26.
\<close>

theorem main_inverted_bounds:
  assumes "stdin w = [email, key, taxid, smin, smax] @ rest"
    and "py_int smin = Inr min_len" and "py_int smax = Inr max_len" and inv: "max_len < min_len"
    and "taxonomy_efetch svc taxid = Inr (d # ds)" and "d ''ScientificName'' = Some name"
    and "nucleotide_esearch svc (''txid'' @ taxid @ ''[Organism]'') = Inr res"
    and "res ''Count'' = Some cs" and "py_int cs = Inr c" and "c \<noteq> 0"
    and "res ''WebEnv'' = Some we" and "res ''QueryKey'' = Some qk"
    and answers: "\<forall>s\<in>set (range_step 0 (min c STOP_AT_RECORD) batch_size).
                    nucleotide_efetch svc we qk s batch_size = Inr (B s)"
  shows "fst (main svc w) = Inr () \<and>
    (\<exists>new. events (snd (main svc w)) = events w @ main_prompts @
        [Request (TaxonomyFetch taxid), Print (''Organism: '' @ name @ '' (TaxID: '' @ taxid @ '')''),
         Request (NucleotideSearch (''txid'' @ taxid @ ''[Organism]'')),
         Print (''Found '' @ py_str c @ '' records''), Print (''Found '' @ py_str c @ '' records.'')] @
        new @ [Print ''No sequences matched given restrictions''] \<and>
      fetch_starts new = range_step 0 (min c STOP_AT_RECORD) batch_size \<and>
      sleeps new = length (fetch_starts new) \<and> requests new = length (fetch_starts new))"
proof -
  define W2 where "W2 = w\<lparr>stdin := rest,
       entrez := \<lparr>entrez_email = Some email, entrez_api_key = Some key, entrez_tool = Some ''BioScriptEx10''\<rparr>,
       retr := \<lparr>organism_name = Some name, count = Some c, webenv = Some we, query_key = Some qk\<rparr>,
       events := events w @ main_prompts @
        [Request (TaxonomyFetch taxid), Print (''Organism: '' @ name @ '' (TaxID: '' @ taxid @ '')''),
         Request (NucleotideSearch (''txid'' @ taxid @ ''[Organism]'')),
         Print (''Found '' @ py_str c @ '' records''), Print (''Found '' @ py_str c @ '' records.'')]\<rparr>"
  let ?ss = "range_step 0 (min c STOP_AT_RECORD) batch_size"
  have main_eq: "main svc w = ebind (fetch_filtered_records svc min_len max_len) (export_results taxid) W2"
    unfolding W2_def using assms(1-3,5-12) by (rule main_searched)
  have attrs: "webenv (retr W2) = Some we" "query_key (retr W2) = Some qk"
    "retriever.count (retr W2) = Some c"
    by (simp_all add: W2_def)
  have empty: "filter_rows min_len max_len b = []" for b
    using inv by (rule filter_rows_inverted)
  obtain r W3 where run: "fetch_loop svc min_len max_len ?ss [] W2 = (r, W3)"
    by (cases "fetch_loop svc min_len max_len ?ss [] W2") blast
  obtain X where "fst (fetch_loop svc min_len max_len ?ss [] W2) = Inr X"
    using fetch_loop_capped_concat [OF attrs(1,2) answers, of min_len max_len] by blast
  with run have rX: "r = Inr X" by simp
  have emptyc: "concat (map (filter_rows min_len max_len) bs) = []" for bs
    by (induction bs) (simp_all add: empty)
  from run rX have "fetch_loop svc min_len max_len ?ss [] W2 = (Inr X, W3)" by simp
  then obtain bs where "X = [] @ concat (map (filter_rows min_len max_len) bs)"
    by (rule fetch_loop_rows [THEN exE])
  then have "X = []" by (simp only: emptyc append_Nil)
  with rX have fetch: "fetch_filtered_records svc min_len max_len W2 = (Inr [], W3)"
    using run attrs(3) by (simp add: fetch_filtered_records_count)
  obtain new where W3: "W3 = W2\<lparr>events := events W2 @ new\<rparr>"
    and starts: "fetch_starts new = take (batches_until result_cap 0 (map (\<lambda>s. filter_rows min_len max_len (B s)) ?ss)) ?ss"
    and sl: "sleeps new = length (fetch_starts new) -
      (if result_cap \<le> length (concat (map (\<lambda>s. filter_rows min_len max_len (B s)) ?ss)) then 1 else 0)"
    using fetch_loop_trace [OF attrs(1,2) answers, of "[]" min_len max_len] run
    by (auto simp: result_cap_def)
  obtain new' where "events W3 = events W2 @ new'" and req: "requests new' = length (fetch_starts new')"
    using fetch_loop_traffic [OF run] by blast
  with W3 have "new' = new" by simp
  have starts': "fetch_starts new = ?ss"
    using starts by (simp add: empty batches_until_empty result_cap_def)
  have "main svc w = (Inr (), W3\<lparr>events := events W3 @ [Print ''No sequences matched given restrictions'']\<rparr>)"
    using fetch by (simp add: main_eq export_results_def model_defs exc_simps)
  moreover have "sleeps new = length (fetch_starts new)"
    using sl by (simp add: empty concat_map_Nil result_cap_def)
  ultimately show ?thesis
    using W3 starts' req \<open>new' = new\<close> by (intro conjI exI [of _ new]) (simp_all add: W2_def)
qed

theorem main_inverted_bounds_witness:
  "fst (main large_svc (start_world [''me@example.org'', ''KEY'', ''9606'', ''10'', ''1''])) = Inr () \<and>
   requests (events (snd (main large_svc (start_world [''me@example.org'', ''KEY'', ''9606'', ''10'', ''1''])))) = 12 \<and>
   sleeps (events (snd (main large_svc (start_world [''me@example.org'', ''KEY'', ''9606'', ''10'', ''1''])))) = 10 \<and>
   last (events (snd (main large_svc (start_world [''me@example.org'', ''KEY'', ''9606'', ''10'', ''1''])))) =
     Print ''No sequences matched given restrictions''"
proof -
  have i: "py_int ''10'' = Inr 10" "py_int ''1'' = Inr 1" "py_int ''6000'' = Inr 6000" by code_simp+
  have s: "stdin (start_world [''me@example.org'', ''KEY'', ''9606'', ''10'', ''1'']) =
      [''me@example.org'', ''KEY'', ''9606'', ''10'', ''1''] @ []"
    and t: "taxonomy_efetch large_svc ''9606'' = Inr [Map.empty(''ScientificName'' \<mapsto> ''Homo sapiens'')]"
    and e: "nucleotide_esearch large_svc (''txid'' @ ''9606'' @ ''[Organism]'') =
      Inr (Map.empty(''Count'' \<mapsto> ''6000'', ''WebEnv'' \<mapsto> ''WE1'', ''QueryKey'' \<mapsto> ''1''))"
    and a: "\<forall>s\<in>set (range_step 0 (min 6000 STOP_AT_RECORD) batch_size).
      nucleotide_efetch large_svc ''WE1'' ''1'' s batch_size = Inr [rec_short, rec_long]"
    by (simp_all add: start_world_def large_svc_def demo_svc_def batch_size_def)
  have len: "length (range_step 0 (min 6000 STOP_AT_RECORD) batch_size) = 10"
    by (simp add: length_range_step STOP_AT_RECORD_def batch_size_def)
  obtain new where run: "fst (main large_svc (start_world [''me@example.org'', ''KEY'', ''9606'', ''10'', ''1''])) = Inr ()"
    and ev: "events (snd (main large_svc (start_world [''me@example.org'', ''KEY'', ''9606'', ''10'', ''1'']))) =
      events (start_world [''me@example.org'', ''KEY'', ''9606'', ''10'', ''1'']) @ main_prompts @
        [Request (TaxonomyFetch ''9606''), Print (''Organism: '' @ ''Homo sapiens'' @ '' (TaxID: '' @ ''9606'' @ '')''),
         Request (NucleotideSearch (''txid'' @ ''9606'' @ ''[Organism]'')),
         Print (''Found '' @ py_str 6000 @ '' records''), Print (''Found '' @ py_str 6000 @ '' records.'')] @
        new @ [Print ''No sequences matched given restrictions'']"
    and st: "fetch_starts new = range_step 0 (min 6000 STOP_AT_RECORD) batch_size"
    and sl: "sleeps new = length (fetch_starts new)" and rq: "requests new = length (fetch_starts new)"
    using main_inverted_bounds [OF s i(1,2) _ t _ e _ i(3) _ _ _ a, where name = "''Homo sapiens''"]
    by auto
  show ?thesis
    using run ev st sl rq len by (simp add: start_world_def main_prompts_def)
qed

end
