(* ===== verification/Outputs.thy ===== *)
theory Outputs
  imports Program
begin

text \<open>
  The files a run of the program writes (src/2025py2_s27542/s27542_2025-2.py, lines 69 to
  105), and what they contain. \<open>file_events\<close> keeps the file writes of an event list;
  \<open>no_files m\<close> says that the statement \<open>m\<close> writes no file, and \<open>files_ok R t m\<close> that
  it either writes none, or returns normally after writing exactly the CSV file and then the
  plot of one non-empty list of rows, all satisfying \<open>R\<close>, named after \<open>t\<close>. Both compose
  along \<open>ebind\<close>, so the file behaviour of \<open>main\<close> follows from that of its parts; with
  the reader of \<open>Export\<close> this gives what a user finds in the CSV file of any run.
\<close>

fun file_events :: "event list \<Rightarrow> event list" where
  "file_events [] = []"
| "file_events (WriteCsv f t # es) = WriteCsv f t # file_events es"
| "file_events (SavePlot f p # es) = SavePlot f p # file_events es"
| "file_events (_ # es) = file_events es"

definition no_files :: "(world, 'a) exc \<Rightarrow> bool" where
  "no_files m \<longleftrightarrow> (\<forall>w. \<exists>new. events (snd (m w)) = events w @ new \<and> file_events new = [])"

definition files_ok :: "(row \<Rightarrow> bool) \<Rightarrow> string \<Rightarrow> (world, unit) exc \<Rightarrow> bool" where
  "files_ok R t m \<longleftrightarrow>
     (\<forall>w. \<exists>new. events (snd (m w)) = events w @ new \<and>
        (file_events new = [] \<or>
         (fst (m w) = Inr () \<and>
          (\<exists>rows. rows \<noteq> [] \<and> list_all R rows \<and>
             file_events new = [WriteCsv (t @ ''_filtered.csv'') (csv_text rows),
                                SavePlot (t @ ''_plot.png'') (plot_figure rows)]))))"

definition row_in_bounds :: "int \<Rightarrow> int \<Rightarrow> row \<Rightarrow> bool" where
  "row_in_bounds mn mx r \<longleftrightarrow> mn \<le> int (seq_length r) \<and> int (seq_length r) \<le> mx"

section \<open>Composition\<close>

lemma file_events_append [simp]: "file_events (xs @ ys) = file_events xs @ file_events ys"
  by (induction xs rule: file_events.induct) auto

lemma no_filesI:
  "(\<And>w. \<exists>new. events (snd (m w)) = events w @ new \<and> file_events new = []) \<Longrightarrow> no_files m"
  by (simp add: no_files_def)

lemma no_files_ebind:
  assumes m: "no_files m" and f: "\<And>x. no_files (f x)"
  shows "no_files (ebind m f)"
proof (rule no_filesI)
  fix w
  obtain n1 where n1: "events (snd (m w)) = events w @ n1" "file_events n1 = []"
    using m by (auto simp: no_files_def)
  show "\<exists>new. events (snd (ebind m f w)) = events w @ new \<and> file_events new = []"
  proof (cases "m w")
    case (Pair r w')
    show ?thesis
    proof (cases r)
      case (Inl e)
      with Pair n1 show ?thesis by (auto simp: exc_simps)
    next
      case (Inr x)
      obtain n2 where "events (snd (f x w')) = events w' @ n2" "file_events n2 = []"
        using f by (auto simp: no_files_def)
      with Pair Inr n1 show ?thesis by (intro exI [of _ "n1 @ n2"]) (auto simp: exc_simps)
    qed
  qed
qed

lemma files_ok_ebind:
  assumes m: "no_files m" and f: "\<And>x. files_ok R t (f x)"
  shows "files_ok R t (ebind m f)"
  unfolding files_ok_def
proof
  fix w
  obtain n1 where n1: "events (snd (m w)) = events w @ n1" "file_events n1 = []"
    using m by (auto simp: no_files_def)
  show "\<exists>new. events (snd (ebind m f w)) = events w @ new \<and>
     (file_events new = [] \<or>
      (fst (ebind m f w) = Inr () \<and>
       (\<exists>rows. rows \<noteq> [] \<and> list_all R rows \<and>
          file_events new = [WriteCsv (t @ ''_filtered.csv'') (csv_text rows),
                             SavePlot (t @ ''_plot.png'') (plot_figure rows)])))"
  proof (cases "m w")
    case (Pair r w')
    show ?thesis
    proof (cases r)
      case (Inl e)
      with Pair n1 show ?thesis by (auto simp: exc_simps)
    next
      case (Inr x)
      obtain n2 where "events (snd (f x w')) = events w' @ n2"
        and "file_events n2 = [] \<or>
          (fst (f x w') = Inr () \<and>
           (\<exists>rows. rows \<noteq> [] \<and> list_all R rows \<and>
              file_events n2 = [WriteCsv (t @ ''_filtered.csv'') (csv_text rows),
                                SavePlot (t @ ''_plot.png'') (plot_figure rows)]))"
        using f [of x] unfolding files_ok_def by blast
      with Pair Inr n1 show ?thesis by (intro exI [of _ "n1 @ n2"]) (auto simp: exc_simps)
    qed
  qed
qed

lemma files_ok_no_files: "no_files m \<Longrightarrow> files_ok R t m"
  by (auto simp: no_files_def files_ok_def)

lemma no_files_quiet:
  "no_files (ret x)" "no_files (of_sum r)" "no_files (py_print s)" "no_files (py_input p)"
  "no_files (init_retriever e k)"
  by (auto simp: no_files_def exc_simps model_defs init_retriever_def split: list.splits)

lemma read_inputs_no_files: "no_files read_inputs"
  unfolding read_inputs_def by (intro no_files_ebind no_files_quiet)

lemma search_taxid_no_files: "no_files (search_taxid svc taxid)"
  unfolding no_files_def search_taxid_def search_body_def
  by (auto simp: exc_simps model_defs set_retr_def
      split: prod.splits sum.splits option.splits list.splits if_splits)

lemma fetch_loop_no_files:
  "fetch_loop svc mn mx ss acc w = (r, w') \<Longrightarrow> \<exists>new. events w' = events w @ new \<and> file_events new = []"
proof (induction ss arbitrary: acc w)
  case Nil
  then show ?case by (auto simp: exc_simps)
next
  case (Cons s ss)
  from Cons.prems show ?case
  proof (cases rule: fetch_loop_ConsE)
    case (continue we qk b)
    then obtain new where "events w' = events w @ [Print (''Fetching in progress :'' @ py_str s),
        Request (NucleotideFetch we qk s batch_size), Sleep] @ new" and "file_events new = []"
      using Cons.IH by fastforce
    then show ?thesis
      by (intro exI [of _ "[Print (''Fetching in progress :'' @ py_str s),
          Request (NucleotideFetch we qk s batch_size), Sleep] @ new"]) auto
  qed auto
qed

lemma fetch_no_files: "no_files (fetch_filtered_records svc mn mx)"
proof (rule no_filesI)
  fix w
  obtain r w' where run: "fetch_filtered_records svc mn mx w = (r, w')" by fastforce
  then show "\<exists>new. events (snd (fetch_filtered_records svc mn mx w)) = events w @ new \<and> file_events new = []"
  proof (cases rule: fetch_filtered_records_searched)
    case (1 c)
    then show ?thesis using run fetch_loop_no_files by fastforce
  qed (simp add: run)
qed

lemma fetch_rows_bounded:
  assumes "fetch_filtered_records svc mn mx w = (Inr rows, w')"
  shows "list_all (row_in_bounds mn mx) rows"
  using assms
proof (cases rule: fetch_filtered_records_searched)
  case (1 c)
  then obtain bs where "rows = concat (map (filter_rows mn mx) bs)"
    using fetch_loop_rows by fastforce
  then show ?thesis by (auto simp: list_all_iff row_in_bounds_def dest: set_filter_rows)
qed simp

lemma export_files_ok:
  "list_all R rows \<Longrightarrow> files_ok R t (export_results t rows)"
  by (auto simp: files_ok_def export_results_def model_defs exc_simps Let_def)

lemma fetch_export_files_ok:
  "files_ok (row_in_bounds mn mx) t (ebind (fetch_filtered_records svc mn mx) (export_results t))"
  unfolding files_ok_def
proof
  fix w
  obtain r w' where run: "fetch_filtered_records svc mn mx w = (r, w')" by fastforce
  have "\<exists>n1. events (snd (fetch_filtered_records svc mn mx w)) = events w @ n1 \<and> file_events n1 = []"
    using fetch_no_files [of svc mn mx] unfolding no_files_def by blast
  then obtain n1 where n1: "events w' = events w @ n1" "file_events n1 = []"
    using run by auto
  show "\<exists>new. events (snd (ebind (fetch_filtered_records svc mn mx) (export_results t) w)) = events w @ new \<and>
     (file_events new = [] \<or>
      (fst (ebind (fetch_filtered_records svc mn mx) (export_results t) w) = Inr () \<and>
       (\<exists>rows. rows \<noteq> [] \<and> list_all (row_in_bounds mn mx) rows \<and>
          file_events new = [WriteCsv (t @ ''_filtered.csv'') (csv_text rows),
                             SavePlot (t @ ''_plot.png'') (plot_figure rows)])))"
  proof (cases r)
    case (Inl e)
    with run n1 show ?thesis by (auto simp: exc_simps)
  next
    case (Inr rows)
    have "files_ok (row_in_bounds mn mx) t (export_results t rows)"
      using fetch_rows_bounded run Inr by (blast intro: export_files_ok)
    then obtain n2 where "events (snd (export_results t rows w')) = events w' @ n2"
      and "file_events n2 = [] \<or>
          (fst (export_results t rows w') = Inr () \<and>
           (\<exists>rows. rows \<noteq> [] \<and> list_all (row_in_bounds mn mx) rows \<and>
              file_events n2 = [WriteCsv (t @ ''_filtered.csv'') (csv_text rows),
                                SavePlot (t @ ''_plot.png'') (plot_figure rows)]))"
      unfolding files_ok_def by blast
    with run Inr n1 show ?thesis by (intro exI [of _ "n1 @ n2"]) (auto simp: exc_simps)
  qed
qed

lemma run_retrieval_files_ok:
  "files_ok (row_in_bounds mn mx) taxid (run_retrieval svc email key taxid mn mx)"
  unfolding run_retrieval_def
  by (intro files_ok_ebind no_files_quiet search_taxid_no_files)
     (simp add: files_ok_no_files no_files_quiet fetch_export_files_ok)

lemma main_read:
  assumes "stdin w = [email, key, taxid, smin, smax] @ rest"
    and "py_int smin = Inr min_len" and "py_int smax = Inr max_len"
  shows "main svc w = run_retrieval svc email key taxid min_len max_len
           (w\<lparr>events := events w @ main_prompts, stdin := rest\<rparr>)"
  using assms by (simp add: main_def read_inputs_def main_prompts_def py_input_Cons exc_simps model_defs)

lemma file_events_prompts [simp]: "file_events main_prompts = []"
  by (simp add: main_prompts_def)

lemma read_csv_text:
  "rows \<noteq> [] \<Longrightarrow> read_csv (csv_text rows) = Some (csv_header # map row_fields rows)"
  using csv_scan_lines [of "csv_header # map row_fields rows" "[]"]
  by (simp add: read_csv_def csv_text_def comp_def csv_header_def row_fields_def)

lemma py_int_length_field: "py_int (py_str (int n)) = Inr (int n)"
  by (simp add: py_int_def py_strip_no_space py_str_no_space signed_dec_py_str)

text \<open>
  C31: every run of the program, whatever the input, the database's answers and the
  exceptions, either writes no file at all, or returns normally after writing exactly two
  files, the CSV file and then the plot, both of the same non-empty list of rows and named
  after one taxonomic ID; an exception never leaves a file behind.
\<close>

theorem main_files_written:
  "\<exists>new. events (snd (main svc w)) = events w @ new \<and>
     (file_events new = [] \<or>
      (fst (main svc w) = Inr () \<and>
       (\<exists>t rows. rows \<noteq> [] \<and>
          file_events new = [WriteCsv (t @ ''_filtered.csv'') (csv_text rows),
                             SavePlot (t @ ''_plot.png'') (plot_figure rows)])))"
proof (cases "read_inputs w")
  case (Pair r w1)
  obtain n1 where n1: "events w1 = events w @ n1" "file_events n1 = []"
    using read_inputs_no_files Pair unfolding no_files_def by (metis snd_conv)
  show ?thesis
  proof (cases r)
    case (Inl e)
    with Pair n1 show ?thesis by (auto simp: main_def exc_simps)
  next
    case (Inr x)
    obtain email key t mn mx where x: "x = (email, key, t, mn, mx)" by (cases x) auto
    have "files_ok (row_in_bounds mn mx) t (run_retrieval svc email key t mn mx)"
      by (rule run_retrieval_files_ok)
    then obtain n2 where "events (snd (run_retrieval svc email key t mn mx w1)) = events w1 @ n2"
      and "file_events n2 = [] \<or>
          (fst (run_retrieval svc email key t mn mx w1) = Inr () \<and>
           (\<exists>rows. rows \<noteq> [] \<and> list_all (row_in_bounds mn mx) rows \<and>
              file_events n2 = [WriteCsv (t @ ''_filtered.csv'') (csv_text rows),
                                SavePlot (t @ ''_plot.png'') (plot_figure rows)]))"
      unfolding files_ok_def by blast
    with Pair Inr x n1 show ?thesis
      by (intro exI [of _ "n1 @ n2"]) (auto simp: main_def exc_simps)
  qed
qed

theorem main_files_written_witness:
  "file_events (events (snd (main demo_svc (start_world [''me@example.org'', ''KEY'', ''9606'', ''1'', ''10''])))) =
     [WriteCsv ''9606_filtered.csv'' (csv_text [row_of rec_short, row_of rec_short]),
      SavePlot ''9606_plot.png'' (plot_figure [row_of rec_short, row_of rec_short])] \<and>
   (\<exists>new. events (snd (main demo_svc (start_world [''me@example.org'', ''KEY'', ''9606'', ''1'', ''10'']))) =
      events (start_world [''me@example.org'', ''KEY'', ''9606'', ''1'', ''10'']) @ new \<and>
    (file_events new = [] \<or>
     (fst (main demo_svc (start_world [''me@example.org'', ''KEY'', ''9606'', ''1'', ''10''])) = Inr () \<and>
      (\<exists>t rows. rows \<noteq> [] \<and>
         file_events new = [WriteCsv (t @ ''_filtered.csv'') (csv_text rows),
                            SavePlot (t @ ''_plot.png'') (plot_figure rows)]))))"
proof -
  have run: "file_events (events (snd (main demo_svc (start_world [''me@example.org'', ''KEY'', ''9606'', ''1'', ''10''])))) =
     [WriteCsv ''9606_filtered.csv'' (csv_text [row_of rec_short, row_of rec_short]),
      SavePlot ''9606_plot.png'' (plot_figure [row_of rec_short, row_of rec_short])]"
    by code_simp
  show ?thesis
    using run main_files_written [of demo_svc "start_world [''me@example.org'', ''KEY'', ''9606'', ''1'', ''10'']"]
    by blast
qed

text \<open>
  C32: what a user finds in the CSV file of any run. When \<open>main\<close> reads two lengths
  that parse, every CSV file it writes is named after the taxonomic ID it read, and reads
  back (RFC 4180) as the header followed by at least one row of three fields whose length
  field, read with \<^verbatim>\<open>int()\<close>, lies between the two lengths: the filter of the fetch, the
  CSV writer and \<^verbatim>\<open>str\<close>/\<^verbatim>\<open>int\<close> compose, whatever the database answers.
\<close>

theorem main_csv_reads_back_in_bounds:
  assumes "stdin w = [email, key, taxid, smin, smax] @ rest"
    and "py_int smin = Inr min_len" and "py_int smax = Inr max_len"
    and "events (snd (main svc w)) = events w @ new" and "WriteCsv f txt \<in> set (file_events new)"
  shows "f = taxid @ ''_filtered.csv'' \<and>
    (\<exists>rows. rows \<noteq> [] \<and> read_csv txt = Some (csv_header # rows) \<and>
       (\<forall>r\<in>set rows. length r = 3 \<and> (\<exists>n. py_int (r ! 1) = Inr n \<and> min_len \<le> n \<and> n \<le> max_len)))"
proof -
  let ?W1 = "w\<lparr>events := events w @ main_prompts, stdin := rest\<rparr>"
  have main_eq: "main svc w = run_retrieval svc email key taxid min_len max_len ?W1"
    using assms(1-3) by (rule main_read)
  obtain n2 where n2: "events (snd (run_retrieval svc email key taxid min_len max_len ?W1)) = events ?W1 @ n2"
    and files: "file_events n2 = [] \<or>
          (fst (run_retrieval svc email key taxid min_len max_len ?W1) = Inr () \<and>
           (\<exists>rows. rows \<noteq> [] \<and> list_all (row_in_bounds min_len max_len) rows \<and>
              file_events n2 = [WriteCsv (taxid @ ''_filtered.csv'') (csv_text rows),
                                SavePlot (taxid @ ''_plot.png'') (plot_figure rows)]))"
    using run_retrieval_files_ok [of min_len max_len taxid svc email key] unfolding files_ok_def by blast
  have "new = main_prompts @ n2" using assms(4) n2 main_eq by simp
  then have "WriteCsv f txt \<in> set (file_events n2)" using assms(5) by simp
  with files obtain rows where ne: "rows \<noteq> []" and bnd: "list_all (row_in_bounds min_len max_len) rows"
    and fname: "f = taxid @ ''_filtered.csv''" and text_eq: "txt = csv_text rows"
    by auto
  have "\<forall>r\<in>set (map row_fields rows). length r = 3 \<and>
          (\<exists>n. py_int (r ! 1) = Inr n \<and> min_len \<le> n \<and> n \<le> max_len)"
    using bnd by (auto simp: list_all_iff row_fields_def row_in_bounds_def py_int_length_field)
  with ne fname text_eq show ?thesis
    by (intro conjI exI [of _ "map row_fields rows"]) (simp_all add: read_csv_text)
qed

theorem main_csv_reads_back_in_bounds_witness:
  "py_int ''1'' = Inr 1 \<and> py_int ''10'' = Inr 10 \<and>
   WriteCsv ''9606_filtered.csv'' (csv_text [row_of rec_short, row_of rec_short]) \<in>
     set (file_events (events (snd (main demo_svc (start_world [''me@example.org'', ''KEY'', ''9606'', ''1'', ''10'']))))) \<and>
   (\<exists>rows. rows \<noteq> [] \<and> read_csv (csv_text [row_of rec_short, row_of rec_short]) = Some (csv_header # rows) \<and>
      (\<forall>r\<in>set rows. length r = 3 \<and> (\<exists>n. py_int (r ! 1) = Inr n \<and> 1 \<le> n \<and> n \<le> 10)))"
proof -
  have i: "py_int ''1'' = Inr 1" "py_int ''10'' = Inr 10" by code_simp+
  have s: "stdin (start_world [''me@example.org'', ''KEY'', ''9606'', ''1'', ''10'']) =
      [''me@example.org'', ''KEY'', ''9606'', ''1'', ''10''] @ []"
    by (simp add: start_world_def)
  have ev: "events (snd (main demo_svc (start_world [''me@example.org'', ''KEY'', ''9606'', ''1'', ''10'']))) =
      events (start_world [''me@example.org'', ''KEY'', ''9606'', ''1'', ''10'']) @
      events (snd (main demo_svc (start_world [''me@example.org'', ''KEY'', ''9606'', ''1'', ''10''])))"
    by (simp add: start_world_def)
  have w: "WriteCsv ''9606_filtered.csv'' (csv_text [row_of rec_short, row_of rec_short]) \<in>
     set (file_events (events (snd (main demo_svc (start_world [''me@example.org'', ''KEY'', ''9606'', ''1'', ''10''])))))"
    by code_simp
  show ?thesis
    using i w main_csv_reads_back_in_bounds [OF s i ev w] by blast
qed

end
