(* ===== verification/Lifecycle.thy ===== *)
theory Lifecycle
  imports Retriever
begin

text \<open>
  The life of one \<^verbatim>\<open>NCBIRetriever\<close> instance (src/2025py2_s27542/s27542_2025-2.py,
  lines 6 to 67) under any sequence of method calls, not only the one \<^verbatim>\<open>main\<close> makes.
  A caller creates the instance (\<open>init_retriever\<close>), then calls \<^verbatim>\<open>search_taxid\<close> and
  \<^verbatim>\<open>fetch_filtered_records\<close> in any order and any number of times, catching what they
  raise: \<open>call\<close> runs one method and keeps the world it leaves, and \<open>reachable\<close> is the
  set of worlds so obtained, an inductive step relation. The attributes are assigned in
  source order, so a reachable instance never holds a later attribute without the earlier
  ones (\<open>session_ok\<close>); but a search that fails between assigning \<^verbatim>\<open>self.webenv\<close> and
  \<^verbatim>\<open>self.query_key\<close> keeps the query key of an earlier search, and the next fetch
  sends that mixed pair. \<open>mixed_svc\<close> is a database whose second search reply lacks
  a \<^verbatim>\<open>QueryKey\<close>.
\<close>

section \<open>Calls on an instance\<close>

datatype retr_call = Search string | Fetch int int

primrec call :: "service \<Rightarrow> retr_call \<Rightarrow> (world, unit) exc" where
  "call svc (Search taxid) = ebind (search_taxid svc taxid) (\<lambda>_. ret ())"
| "call svc (Fetch mn mx) = ebind (fetch_filtered_records svc mn mx) (\<lambda>_. ret ())"

inductive reachable :: "service \<Rightarrow> world \<Rightarrow> bool" for svc where
  created: "reachable svc (snd (init_retriever e k w))"
| called: "reachable svc w \<Longrightarrow> reachable svc (snd (call svc c w))"

definition session_ok :: "retriever \<Rightarrow> bool" where
  "session_ok r \<longleftrightarrow>
     (query_key r \<noteq> None \<longrightarrow> webenv r \<noteq> None) \<and> (webenv r \<noteq> None \<longrightarrow> count r \<noteq> None) \<and>
     (count r \<noteq> None \<longrightarrow> organism_name r \<noteq> None)"

fun fetch_sessions :: "event list \<Rightarrow> (string \<times> string) list" where
  "fetch_sessions [] = []"
| "fetch_sessions (Request (NucleotideFetch we qk s n) # es) = (we, qk) # fetch_sessions es"
| "fetch_sessions (_ # es) = fetch_sessions es"

definition mixed_svc :: service where
  "mixed_svc = \<lparr>taxonomy_efetch =
       (\<lambda>t. Inr [Map.empty(''ScientificName'' \<mapsto> (if t = ''1'' then ''Organism A'' else ''Organism B''))]),
     nucleotide_esearch = (\<lambda>term.
       if term = ''txid1[Organism]''
       then Inr (Map.empty(''Count'' \<mapsto> ''700'', ''WebEnv'' \<mapsto> ''WE1'', ''QueryKey'' \<mapsto> ''1''))
       else Inr (Map.empty(''Count'' \<mapsto> ''900'', ''WebEnv'' \<mapsto> ''WE2''))),
     nucleotide_efetch = (\<lambda>we qk s n. Inr (take n [rec_short, rec_long]))\<rparr>"

definition first_search_world :: world where
  "first_search_world =
     snd (search_taxid mixed_svc ''1'' (snd (init_retriever ''me@example.org'' ''KEY'' fresh_world)))"

definition second_search_world :: world where
  "second_search_world = snd (search_taxid mixed_svc ''2'' first_search_world)"

text \<open>A database whose second search reply has a count and a query key but no \<^verbatim>\<open>WebEnv\<close>.\<close>

definition stale_svc :: service where
  "stale_svc = mixed_svc\<lparr>nucleotide_esearch := (\<lambda>term.
       if term = ''txid1[Organism]''
       then Inr (Map.empty(''Count'' \<mapsto> ''700'', ''WebEnv'' \<mapsto> ''WE1'', ''QueryKey'' \<mapsto> ''1''))
       else Inr (Map.empty(''Count'' \<mapsto> ''4000'', ''QueryKey'' \<mapsto> ''2'')))\<rparr>"

section \<open>Facts\<close>

lemma fetch_sessions_append [simp]: "fetch_sessions (xs @ ys) = fetch_sessions xs @ fetch_sessions ys"
  by (induction xs rule: fetch_sessions.induct) auto

lemma snd_ebind_ret [simp]: "snd (ebind m (\<lambda>_. ret b) w) = snd (m w)"
  by (simp add: exc_simps split: prod.splits sum.splits)

lemma init_session_ok: "session_ok (retr (snd (init_retriever e k w)))"
  by (simp add: init_retriever_def exc_simps session_ok_def)

lemma search_session_ok:
  "session_ok (retr w) \<Longrightarrow> session_ok (retr (snd (search_taxid svc taxid w)))"
  unfolding search_taxid_def search_body_def session_ok_def
  by (auto simp: exc_simps model_defs set_retr_def
      split: prod.splits sum.splits option.splits list.splits if_splits)

lemma fetch_keeps_retr: "retr (snd (fetch_filtered_records svc mn mx w)) = retr w"
proof (cases "fetch_filtered_records svc mn mx w")
  case (Pair r w')
  then show ?thesis
  proof (cases rule: fetch_filtered_records_searched)
    case (1 c)
    then show ?thesis using Pair by (auto dest: fetch_loop_frame)
  qed (simp add: Pair)
qed

lemma fetch_loop_sessions:
  "fetch_loop svc mn mx ss acc w = (r, w') \<Longrightarrow>
   \<exists>new. events w' = events w @ new \<and>
     (\<forall>p\<in>set (fetch_sessions new). webenv (retr w) = Some (fst p) \<and> query_key (retr w) = Some (snd p))"
proof (induction ss arbitrary: acc w)
  case Nil
  then show ?case by (auto simp: exc_simps)
next
  case (Cons s ss)
  from Cons.prems show ?case
  proof (cases rule: fetch_loop_ConsE)
    case (continue we qk b)
    then show ?thesis by (fastforce dest: Cons.IH)
  qed auto
qed

text \<open>
  C22: in every state an instance can reach, an attribute is set only if those assigned
  before it in \<^verbatim>\<open>search_taxid\<close> are: a query key only with a session, a session only with
  a count, a count only with an organism name.
\<close>

theorem session_invariant:
  "reachable svc w \<Longrightarrow> session_ok (retr w)"
proof (induction rule: reachable.induct)
  case (created e k w)
  then show ?case by (rule init_session_ok)
next
  case (called w c)
  then show ?case
    by (cases c) (simp_all add: search_session_ok fetch_keeps_retr)
qed

theorem session_invariant_witness:
  "reachable mixed_svc second_search_world \<and> session_ok (retr second_search_world)"
proof -
  have "reachable mixed_svc (snd (call mixed_svc (Search ''2'')
          (snd (call mixed_svc (Search ''1'') (snd (init_retriever ''me@example.org'' ''KEY'' fresh_world))))))"
    by (intro reachable.called reachable.created)
  then have r: "reachable mixed_svc second_search_world"
    by (simp add: second_search_world_def first_search_world_def)
  show ?thesis using r session_invariant [OF r] by simp
qed

text \<open>
  C23: when the search reply has a non-zero count and a \<^verbatim>\<open>WebEnv\<close> but no
  \<^verbatim>\<open>QueryKey\<close>, \<^verbatim>\<open>search_taxid\<close> returns 0 after assigning the organism name, the
  count and the new session, and leaves the query key as it was, possibly from an earlier search.
\<close>

theorem search_partial_session:
  assumes "taxonomy_efetch svc taxid = Inr (d # ds)" and "d ''ScientificName'' = Some name"
    and "nucleotide_esearch svc (''txid'' @ taxid @ ''[Organism]'') = Inr res"
    and "res ''Count'' = Some cs" and "py_int cs = Inr c" and "c \<noteq> 0"
    and "res ''WebEnv'' = Some we" and "res ''QueryKey'' = None"
  shows "fst (search_taxid svc taxid w) = Inr (Some 0) \<and>
         retr (snd (search_taxid svc taxid w)) =
           (retr w)\<lparr>organism_name := Some name, count := Some c, webenv := Some we\<rparr>"
  using assms
  by (simp add: search_taxid_def search_body_def exc_simps model_defs set_retr_def)

theorem search_partial_session_witness:
  "fst (search_taxid mixed_svc ''2'' first_search_world) = Inr (Some 0) \<and>
   retr second_search_world = \<lparr>organism_name = Some ''Organism B'', count = Some 900,
                                webenv = Some ''WE2'', query_key = Some ''1''\<rparr>"
proof -
  have r1: "retr first_search_world = \<lparr>organism_name = Some ''Organism A'', count = Some 700,
                                      webenv = Some ''WE1'', query_key = Some ''1''\<rparr>"
    by code_simp
  have c: "py_int ''900'' = Inr 900" by code_simp
  have "fst (search_taxid mixed_svc ''2'' first_search_world) = Inr (Some 0) \<and>
        retr (snd (search_taxid mixed_svc ''2'' first_search_world)) =
          (retr first_search_world)\<lparr>organism_name := Some ''Organism B'', count := Some 900,
                                     webenv := Some ''WE2''\<rparr>"
    by (rule search_partial_session [where d = "Map.empty(''ScientificName'' \<mapsto> ''Organism B'')"
          and ds = "[]" and res = "Map.empty(''Count'' \<mapsto> ''900'', ''WebEnv'' \<mapsto> ''WE2'')" and cs = "''900''"])
       (simp_all add: mixed_svc_def c)
  then show ?thesis by (simp add: second_search_world_def r1)
qed

text \<open>
  C25: a search that fails (returns 0) never changes the stored query key: the
  assignment \<^verbatim>\<open>self.query_key = ...\<close> is the last statement of the \<^verbatim>\<open>try\<close> block that
  can raise, so a failed search leaves the query key of the previous search, if any.
\<close>

theorem failed_search_keeps_query_key:
  assumes "search_taxid svc taxid w = (Inr (Some 0), w')"
  shows "query_key (retr w') = query_key (retr w)"
  using assms unfolding search_taxid_def search_body_def
  by (auto simp: exc_simps model_defs set_retr_def
      split: prod.splits sum.splits option.splits list.splits if_splits)

theorem failed_search_keeps_query_key_witness:
  "fst (search_taxid mixed_svc ''2'' first_search_world) = Inr (Some 0) \<and>
   query_key (retr second_search_world) = Some ''1''"
proof -
  have run: "fst (search_taxid mixed_svc ''2'' first_search_world) = Inr (Some 0)" by code_simp
  have "query_key (retr first_search_world) = Some ''1''" by code_simp
  then show ?thesis
    using run failed_search_keeps_query_key [OF run_collapse [OF run]] by (simp add: second_search_world_def)
qed

text \<open>
  C24: every batch request \<^verbatim>\<open>fetch_filtered_records\<close> sends carries the \<^verbatim>\<open>WebEnv\<close>
  and \<^verbatim>\<open>QueryKey\<close> stored in the instance when the fetch starts, and the fetch only
  appends to the events.
\<close>

theorem fetch_uses_stored_session:
  assumes "fetch_filtered_records svc mn mx w = (r, w')"
  shows "\<exists>new. events w' = events w @ new \<and>
           (\<forall>p\<in>set (fetch_sessions new). webenv (retr w) = Some (fst p) \<and> query_key (retr w) = Some (snd p))"
  using assms
proof (cases rule: fetch_filtered_records_searched)
  case (1 c)
  then show ?thesis using fetch_loop_sessions by blast
qed (auto intro: exI [of _ "[]"])

theorem fetch_uses_stored_session_witness:
  "\<exists>new. events (snd (fetch_filtered_records mixed_svc 1 10 second_search_world)) =
          events second_search_world @ new \<and> set (fetch_sessions new) \<subseteq> {(''WE2'', ''1'')}"
proof -
  have r2: "retr second_search_world = \<lparr>organism_name = Some ''Organism B'', count = Some 900,
                                       webenv = Some ''WE2'', query_key = Some ''1''\<rparr>"
    by code_simp
  show ?thesis
    using fetch_uses_stored_session [OF prod.collapse [symmetric]] r2
    by (force simp: subset_iff)
qed

text \<open>
  C27: when the search reply has a non-zero count but no \<^verbatim>\<open>WebEnv\<close>,
  \<^verbatim>\<open>search_taxid\<close> returns 0 after assigning the new organism name and the new count,
  and keeps the session of any earlier search: a later fetch pages through the earlier
  search's results up to the new count.
\<close>

theorem search_stale_count:
  assumes "taxonomy_efetch svc taxid = Inr (d # ds)" and "d ''ScientificName'' = Some name"
    and "nucleotide_esearch svc (''txid'' @ taxid @ ''[Organism]'') = Inr res"
    and "res ''Count'' = Some cs" and "py_int cs = Inr c" and "c \<noteq> 0"
    and "res ''WebEnv'' = None"
  shows "fst (search_taxid svc taxid w) = Inr (Some 0) \<and>
         retr (snd (search_taxid svc taxid w)) = (retr w)\<lparr>organism_name := Some name, count := Some c\<rparr>"
  using assms
  by (simp add: search_taxid_def search_body_def exc_simps model_defs set_retr_def)

theorem search_stale_count_witness:
  "fst (search_taxid stale_svc ''2'' first_search_world) = Inr (Some 0) \<and>
   retr (snd (search_taxid stale_svc ''2'' first_search_world)) =
     \<lparr>organism_name = Some ''Organism B'', count = Some 4000, webenv = Some ''WE1'', query_key = Some ''1''\<rparr>"
proof -
  have r1: "retr first_search_world = \<lparr>organism_name = Some ''Organism A'', count = Some 700,
                                      webenv = Some ''WE1'', query_key = Some ''1''\<rparr>"
    by code_simp
  have c: "py_int ''4000'' = Inr 4000" by code_simp
  have "fst (search_taxid stale_svc ''2'' first_search_world) = Inr (Some 0) \<and>
        retr (snd (search_taxid stale_svc ''2'' first_search_world)) =
          (retr first_search_world)\<lparr>organism_name := Some ''Organism B'', count := Some 4000\<rparr>"
    by (rule search_stale_count [where d = "Map.empty(''ScientificName'' \<mapsto> ''Organism B'')"
          and ds = "[]" and res = "Map.empty(''Count'' \<mapsto> ''4000'', ''QueryKey'' \<mapsto> ''2'')" and cs = "''4000''"])
       (simp_all add: stale_svc_def mixed_svc_def c)
  then show ?thesis by (simp add: r1)
qed

end
