(* ===== verification/Spec2Isabelle.thy ===== *)
theory Spec2Isabelle
  imports Traffic Outputs Lifecycle
begin

text \<open>
  \<^bold>\<open>A verification model of the sequence retriever\<close>
  (src/2025py2_s27542/s27542_2025-2.py, 107 lines of Python).

  \<^bold>\<open>The program.\<close> \<^verbatim>\<open>main\<close> reads an e-mail address, an API key, a taxonomic ID and two
  length bounds; creates an \<^verbatim>\<open>NCBIRetriever\<close>, which sets the Entrez client's globals;
  calls \<^verbatim>\<open>search_taxid\<close>, which looks up the organism's name, runs a nucleotide search
  with server-side history and stores the count, \<^verbatim>\<open>WebEnv\<close> and \<^verbatim>\<open>QueryKey\<close> in the
  instance; calls \<^verbatim>\<open>fetch_filtered_records\<close>, which requests batches of 500 records at
  offsets \<open>0, 500, \<dots>\<close> below \<open>min(count, 5000)\<close>, keeps the records whose length
  lies in the closed interval, stops after the first batch that brings the rows to 500 or
  more, and pauses 0.1 s after every other batch; and writes the rows as CSV and as a
  plot sorted by length.

  \<^bold>\<open>The theories.\<close>
  \<^item> \<open>Prelude\<close>: Python exceptions (\<open>pyerr\<close>) and the text \<^verbatim>\<open>str(e)\<close> gives for
    them (\<open>err_str\<close>, which quotes a key or a literal as \<^verbatim>\<open>repr\<close> does: \<open>py_repr\<close>);
    the exception-and-state effect \<open>('w, 'a) exc\<close> with \<open>ebind\<close> (sequencing that
    propagates an exception), \<open>try_except\<close>, \<open>update\<close>; their evaluation laws are the
    collection \<open>exc_simps\<close>.
  \<^item> \<open>PyBuiltins\<close>: \<^verbatim>\<open>range\<close> with a positive step (\<open>range_step\<close>, a \<^theory_text>\<open>function\<close>
    with a measure), \<^verbatim>\<open>int(str)\<close> (\<open>py_int\<close>, with whitespace stripping, sign and
    underscores) and \<^verbatim>\<open>str(int)\<close> (\<open>py_str\<close>); the elements, order and length of a
    range, and the lemma that \<open>py_int\<close> reads back what \<open>py_str\<close> writes, which the
    CSV claim of \<open>Outputs\<close> uses.
  \<^item> \<open>Entrez\<close>: the external collaborators, modelled from the spec because their code
    (Biopython) is not in the repository: the client's globals \<open>entrez_cfg\<close>, replies as
    dictionaries, GenBank records \<open>seq_record\<close>, the database as a \<open>service\<close> record of
    three fallible functions, and the observable \<open>event\<close>s (requests, printed lines,
    prompts, pauses, files written) that every call appends to the \<open>io_world\<close>.
  \<^item> \<open>Retriever\<close>: the class. Its instance is the record \<open>retriever\<close> (an unset
    attribute is \<open>None\<close>, and reading it raises \<open>AttributeError\<close>); \<open>init_retriever\<close>
    is \<^verbatim>\<open>__init__\<close>; \<open>search_body\<close> and \<open>search_taxid\<close> are the \<^verbatim>\<open>try\<close> block and
    the whole of \<^verbatim>\<open>search_taxid\<close>; \<open>append_matching\<close>, \<open>fetch_loop\<close> and
    \<open>fetch_filtered_records\<close> are the inner loop, the outer loop and the method of the
    fetch. The abstract specification of the fetch is \<open>capped_concat\<close> over
    \<open>filter_rows\<close>. Lemmas: the characteristic equations and an elimination rule for one
    loop step (\<open>fetch_loop_step\<close>, \<open>fetch_loop_ConsE\<close>), then claims C1 to C5, C7
    to C14 and C20.
  \<^item> \<open>Export\<close>: \<open>generate_csv\<close> as the text pandas writes (\<open>csv_text\<close>, with
    \<^verbatim>\<open>QUOTE_MINIMAL\<close> quoting) and \<open>generate_plot\<close> as the points it plots
    (\<open>plot_points\<close>, sorted by length, longest first) in the figure \<open>plot_figure\<close> with
    the settings of lines 76 to 82. A reader of that text,
    \<open>read_csv\<close>, is the RFC 4180 state machine \<open>csv_scan\<close> (structural recursion
    on the characters); it is not program code but the meaning of the file, and the round
    trip through it is claim C21. The plot's points are claim C19.
  \<^item> \<open>Program\<close>: \<open>main\<close>, composed from the above exactly as the source composes it:
    \<open>read_inputs\<close> (lines 86 to 90), \<open>run_retrieval\<close> (lines 92 to 105) and its tail
    \<open>export_results\<close> (lines 98 to 105); \<open>main_searched\<close> reduces a run past a
    successful search to the fetch and the exports; claims C6 and C15 to C18.
  \<^item> \<open>Lifecycle\<close>: one instance under any sequence of method calls whose exceptions
    the caller catches (\<open>call\<close>), and the worlds so reachable (\<open>reachable\<close>, an
    inductive step relation); claims C22 to C25 and C27.
  \<^item> \<open>Traffic\<close>: the requests and pauses of a run; \<open>appends_within a b c m\<close> bounds
    what a statement appends, the bounds add up along \<open>ebind\<close>, and \<open>main\<close> sends at
    most 12 requests, 10 of them batches, and pauses at most ten times (C26). The
    specification \<open>batches_until\<close> counts the batches the fetch needs; the fetch sends
    exactly those requests (C28), a run with inverted bounds whose batch requests are all
    answered requests every offset and reaches the bound of C26 (C29), and every request
    follows its progress line (C30).
  \<^item> \<open>Outputs\<close>: the files a run writes. \<open>no_files\<close> and \<open>files_ok\<close> say what a
    statement may write and compose along \<open>ebind\<close>; every run writes nothing or the CSV
    then the plot of the same rows (C31), and the CSV of any run reads back as rows whose
    length field parses within the bounds read from the input (C32).

  \<^bold>\<open>How state and effects are modelled.\<close> Every statement is a function from the world
  before to an outcome and the world after; the world (\<open>world\<close>, extending \<open>io_world\<close>)
  holds the events produced so far, the unread standard input, the client's globals and
  the one retriever instance. An exception is \<open>Inl e\<close> and keeps the effects that
  preceded it, as in Python. Python integers are \<open>int\<close>; lengths are \<open>nat\<close>.
  All loops are structural recursion over a finite list (the offsets of the range, the
  records of a batch), so every operation is a total, executable function: no fuel is
  needed, and the witnesses evaluate the operations with \<open>code_simp\<close> on concrete services.

  \<^bold>\<open>What the claims show.\<close> The fetch returns only rows within the bounds (C1); when the
  service answers, it returns exactly the filtered batches up to the first that reaches
  the cap (C2, a refinement of \<open>capped_concat\<close>); its requests are at increasing
  multiples of 500 below \<open>min(count, 5000)\<close>, at most ten (C3); its result is below
  1000 rows when batches hold at most \<open>retmax\<close> records (C4) but can exceed 500 (C5);
  it fails only with a batch's failure and then loses every row (C11); it pauses after
  every batch, the last included (C12); it raises before a search (C13) and does nothing
  for a count of zero (C14); in the spec's scenario of 1200 records it sends one request,
  not three (C20). The search succeeds with the stated effects (C7), never
  raises (C8), returns \<^verbatim>\<open>None\<close> rather than \<open>0\<close> for an empty result (C9), and
  returns \<open>0\<close> only after printing an error (C10). Because of C9, \<open>main\<close> runs the fetch
  after an empty search and reports that no sequence matched (C6). \<open>main\<close> lets
  escape only input errors and a batch's failure (C15), writes the CSV and then the plot
  under names built from the taxid (C16), stops at a bad minimum length before any
  request (C17), and after a failed lookup prints the error and
  \<^verbatim>\<open>No records found\<close> and writes nothing (C18). The plot is a permutation of the
  rows' points, longest first (C19); the CSV file reads back as its header and rows,
  quotes, commas and line breaks included (C21). Every reachable instance holds its
  attributes in assignment order (C22, by rule induction); a search whose reply lacks
  \<^verbatim>\<open>QueryKey\<close> returns 0 with a new session and an old query key (C23), no failed
  search changes the query key (C25), a reply without \<^verbatim>\<open>WebEnv\<close> leaves the new count
  with the old session (C27), and a fetch sends exactly the stored pair (C24), so a
  second search on an instance can make the next fetch mix two searches' sessions.

  A whole run sends at most 12 requests and pauses at most ten times (C26). When every
  batch is answered, the fetch sends exactly the first
  \<open>batches_until 500 0 rows_per_batch\<close> offsets and pauses after each but a last one
  that reached the cap (C28); when the search succeeds and every batch request is
  answered, bounds with \<open>max_len < min_len\<close> make \<open>main\<close> request every offset and
  print that nothing matched, 12 requests for a count of 5000 or more (C29); each batch
  request follows its progress line (C30). Whatever the database answers, a run writes
  no file or exactly the CSV and then the plot of one non-empty list of rows (C31); the
  CSV file reads back as the header and rows whose length, read with \<^verbatim>\<open>int()\<close>, lies
  within the bounds the user typed (C32), composing the fetch's filter, the CSV writer
  and the reader of \<open>Export\<close>.

  \<^bold>\<open>Bounds and fuel.\<close> None is needed: every loop of the source runs over a finite
  list (the range, the records of a batch, the characters of the CSV text), and the
  only non-structural recursion, \<^verbatim>\<open>range\<close>, terminates by the measure
  \<open>stop - i\<close>. The result cap 500, the batch size 500 and \<^verbatim>\<open>STOP_AT_RECORD = 5000\<close>
  are the source's constants, kept as definitions.

  \<^bold>\<open>Not modelled.\<close> The network protocol and XML/GenBank decoding (the service's
  replies are arbitrary, so every theorem holds for any database); the wall-clock length
  of a pause; figure rendering by matplotlib (the figure is modelled by its settings and
  points, not its pixels); Unicode digits and spaces in \<^verbatim>\<open>int()\<close> and non-ASCII
  characters in \<^verbatim>\<open>repr\<close>; \<^verbatim>\<open>range\<close> with a step of zero or less, which the source
  never uses.

  \<^bold>\<open>Completeness.\<close> Every line of the source but the four imports is the line range of
  a definition; the parts left partly modelled are those whose code is not in the
  repository (Biopython, modelled from the spec as an arbitrary service) or that work on
  data the model does not represent (Unicode digits and spaces of \<^verbatim>\<open>int()\<close>, since
  Isabelle's \<open>char\<close> is a byte).
\<close>

end
